theory Spec2Isabelle
  imports Main
begin

section \<open>Prompt templates of \<^verbatim>\<open>llama_index/prompts/base.py\<close>\<close>

text \<open>
  The module defines four template classes over one interface: a string template, a chat
  template, a selector over templates and a bridge to an external template engine. The
  methods are modelled over the attributes of an existing instance. Creating an instance
  is Python's check that the class has no abstract member left, followed by the body of
  the initialiser, in which an assignment \<^verbatim>\<open>self.x = v\<close> stores the attribute.

  Exceptions are values: a method returns \<open>error + 'a\<close>, \<open>Inl\<close> for the exception.
\<close>

datatype error =
    ValueError
  | KeyError string
  | IndexError
  | AttributeError
  | TypeError
  | UnboundLocalError
  | Unsupported

text \<open>
  \<open>Unsupported\<close> is not a Python exception: it marks the rendering of a value through
  a conversion, a format spec, an index or an attribute, which the model of
  \<^verbatim>\<open>str.format\<close> below does not interpret. No statement about Python is read off a
  result \<open>Inl Unsupported\<close>.
\<close>

type_synonym bindings = "string \<rightharpoonup> string"

subsection \<open>Python's \<^verbatim>\<open>str.format\<close> with keyword arguments only\<close>

text \<open>
  CPython renders a format string chunk by chunk: literal text up to the next brace, then
  either an escaped brace (\<^verbatim>\<open>{{\<close>, \<^verbatim>\<open>}}\<close>) or a replacement field. A single
  closing brace, or an opening brace that is never closed, raises \<^verbatim>\<open>ValueError\<close> when
  the scan reaches it, after the chunks before it have been rendered. \<open>markup\<close> is that
  scan; it ends with \<open>Bad e\<close> where the scan stops with \<open>e\<close>. A character of the
  model is a code point below 256, so the decimal digits are the ASCII ones.

  A replacement field is a field name, then an optional conversion (\<^verbatim>\<open>!r\<close>), then an
  optional format spec (\<^verbatim>\<open>:>3\<close>), in which braces nest. Inside the field name an
  opening brace is an error, and the text between \<^verbatim>\<open>[\<close> and the next \<^verbatim>\<open>]\<close> is
  not looked at. \<open>Fld\<close> is a field that is a field name only, without index; \<open>Cpd\<close> is
  any other field, with its field name.
\<close>

datatype token = Lit char | Fld string | Cpd string | Bad error

datatype scan_mode =
    Outside
  | AfterOpen
  | AfterClose
  | Inside string
  | Indexed string
  | Bracket string
  | Conversion string
  | AfterConversion string
  | Spec string nat

fun markup :: "scan_mode \<Rightarrow> string \<Rightarrow> token list" where
  "markup Outside [] = []"
| "markup Outside (c # cs) =
     (if c = CHR ''{'' then markup AfterOpen cs
      else if c = CHR ''}'' then markup AfterClose cs
      else Lit c # markup Outside cs)"
| "markup AfterOpen [] = [Bad ValueError]"
| "markup AfterOpen (c # cs) =
     (if c = CHR ''{'' then Lit c # markup Outside cs
      else if c = CHR ''}'' then Fld [] # markup Outside cs
      else if c = CHR ''['' then markup (Bracket [c]) cs
      else if c = CHR ''!'' then markup (Conversion []) cs
      else if c = CHR '':'' then markup (Spec [] 1) cs
      else markup (Inside [c]) cs)"
| "markup AfterClose [] = [Bad ValueError]"
| "markup AfterClose (c # cs) =
     (if c = CHR ''}'' then Lit c # markup Outside cs else [Bad ValueError])"
| "markup (Inside n) [] = [Bad ValueError]"
| "markup (Inside n) (c # cs) =
     (if c = CHR ''}'' then Fld (rev n) # markup Outside cs
      else if c = CHR ''{'' then [Bad ValueError]
      else if c = CHR ''['' then markup (Bracket (c # n)) cs
      else if c = CHR ''!'' then markup (Conversion n) cs
      else if c = CHR '':'' then markup (Spec n 1) cs
      else markup (Inside (c # n)) cs)"
| "markup (Indexed n) [] = [Bad ValueError]"
| "markup (Indexed n) (c # cs) =
     (if c = CHR ''}'' then Cpd (rev n) # markup Outside cs
      else if c = CHR ''{'' then [Bad ValueError]
      else if c = CHR ''['' then markup (Bracket (c # n)) cs
      else if c = CHR ''!'' then markup (Conversion n) cs
      else if c = CHR '':'' then markup (Spec n 1) cs
      else markup (Indexed (c # n)) cs)"
| "markup (Bracket n) [] = [Bad ValueError]"
| "markup (Bracket n) (c # cs) =
     (if c = CHR '']'' then markup (Indexed (c # n)) cs else markup (Bracket (c # n)) cs)"
| "markup (Conversion n) [] = [Bad ValueError]"
| "markup (Conversion n) (c # cs) = markup (AfterConversion n) cs"
| "markup (AfterConversion n) [] = [Bad ValueError]"
| "markup (AfterConversion n) (c # cs) =
     (if c = CHR ''}'' then Cpd (rev n) # markup Outside cs
      else if c = CHR '':'' then markup (Spec n 1) cs
      else [Bad ValueError])"
| "markup (Spec n depth) [] = [Bad ValueError]"
| "markup (Spec n depth) (c # cs) =
     (if c = CHR ''{'' then markup (Spec n (Suc depth)) cs
      else if c = CHR ''}'' then
        (if depth \<le> 1 then Cpd (rev n) # markup Outside cs else markup (Spec n (depth - 1)) cs)
      else markup (Spec n depth) cs)"

definition is_digit :: "char \<Rightarrow> bool" where
  "is_digit c = (c \<in> set ''0123456789'')"

text \<open>The argument a field names: its field name up to the first attribute or index.\<close>

definition arg_name :: "string \<Rightarrow> string" where
  "arg_name fld = takeWhile (\<lambda>c. c \<noteq> CHR ''.'' \<and> c \<noteq> CHR ''['') fld"

text \<open>
  A field whose argument is empty or a number is positional. The module passes keyword
  arguments only, so a positional field finds no argument: \<^verbatim>\<open>IndexError\<close> (a
  number beyond the index range of a 64-bit build is refused with \<^verbatim>\<open>ValueError\<close>).
  A named argument is looked up among the keywords: \<^verbatim>\<open>KeyError\<close> when absent. All
  that comes before anything else of the field is evaluated. A value is a string: a field
  that is its argument's name only renders as the value; what attribute access, index,
  conversion and format spec make of a value that is present is not modelled.
\<close>

definition PY_SSIZE_T_MAX :: int where
  "PY_SSIZE_T_MAX = 2 ^ 63 - 1"

definition decimal :: "string \<Rightarrow> int" where
  "decimal ds = foldl (\<lambda>acc c. 10 * acc + (of_char c - 48)) 0 ds"

definition get_argument :: "bindings \<Rightarrow> string \<Rightarrow> error + string" where
  "get_argument kw a =
     (if a = [] then Inl IndexError
      else if list_all is_digit a then
        (if PY_SSIZE_T_MAX < decimal a then Inl ValueError else Inl IndexError)
      else (case kw a of None \<Rightarrow> Inl (KeyError a) | Some v \<Rightarrow> Inr v))"

definition render_field :: "bindings \<Rightarrow> string \<Rightarrow> error + string" where
  "render_field kw fld =
     (let a = arg_name fld in
      case get_argument kw a of
        Inl e \<Rightarrow> Inl e
      | Inr v \<Rightarrow> if a = fld then Inr v else Inl Unsupported)"

definition render_compound :: "bindings \<Rightarrow> string \<Rightarrow> error + string" where
  "render_compound kw fld =
     (case get_argument kw (arg_name fld) of
        Inl e \<Rightarrow> Inl e
      | Inr v \<Rightarrow> Inl Unsupported)"

fun render :: "bindings \<Rightarrow> token list \<Rightarrow> error + string" where
  "render kw [] = Inr []"
| "render kw (Lit c # ts) =
     (case render kw ts of Inl e \<Rightarrow> Inl e | Inr s \<Rightarrow> Inr (c # s))"
| "render kw (Fld f # ts) =
     (case render_field kw f of
        Inl e \<Rightarrow> Inl e
      | Inr v \<Rightarrow> (case render kw ts of Inl e \<Rightarrow> Inl e | Inr s \<Rightarrow> Inr (v @ s)))"
| "render kw (Cpd f # ts) =
     (case render_compound kw f of
        Inl e \<Rightarrow> Inl e
      | Inr v \<Rightarrow> (case render kw ts of Inl e \<Rightarrow> Inl e | Inr s \<Rightarrow> Inr (v @ s)))"
| "render kw (Bad e # ts) = Inl e"

definition str_format :: "string \<Rightarrow> bindings \<Rightarrow> error + string" where
  "str_format s kw = render kw (markup Outside s)"

subsection \<open>The placeholder extractor\<close>

text \<open>
  Modelled from the spec: \<^verbatim>\<open>get_template_vars\<close> of \<^verbatim>\<open>llama_index/prompts/utils.py\<close>
  is not among the sources. The spec has it return the names of the placeholders a
  template string references, in order of appearance, ignoring doubled braces, and never
  raise; escaping is that of the engine's own substitution syntax, so the extractor reads
  the same scan as \<open>str_format\<close> and lists the field name of every field that has one.
\<close>

fun field_names :: "token list \<Rightarrow> string list" where
  "field_names [] = []"
| "field_names (Fld f # ts) = (if f = [] then field_names ts else f # field_names ts)"
| "field_names (Cpd f # ts) = (if f = [] then field_names ts else f # field_names ts)"
| "field_names (Lit c # ts) = field_names ts"
| "field_names (Bad e # ts) = field_names ts"

definition get_template_vars :: "string \<Rightarrow> string list" where
  "get_template_vars s = field_names (markup Outside s)"

text \<open>
  A template string is plain when the scan meets no error and every replacement field is
  a keyword name: not empty, not a number, without attribute access, index, conversion or
  format spec. On plain templates \<open>str_format\<close> is CPython's \<^verbatim>\<open>str.format\<close> exactly.
\<close>

definition plain_field :: "string \<Rightarrow> bool" where
  "plain_field f =
     (f \<noteq> [] \<and> \<not> list_all is_digit f \<and> CHR ''.'' \<notin> set f \<and> CHR ''['' \<notin> set f)"

fun plain_token :: "token \<Rightarrow> bool" where
  "plain_token (Lit c) = True"
| "plain_token (Fld f) = plain_field f"
| "plain_token (Cpd f) = False"
| "plain_token (Bad e) = False"

definition plain_template :: "string \<Rightarrow> bool" where
  "plain_template s = list_all plain_token (markup Outside s)"

subsection \<open>The store of binding dictionaries\<close>

text \<open>
  The only in-place mutation of the module is \<^verbatim>\<open>prompt.kwargs.update(kwargs)\<close> in
  \<^verbatim>\<open>partial_format\<close>. Whether it reaches the receiver depends on whether the copy
  shares the receiver's dictionary, so dictionaries live in a store and a template holds
  the address of its \<^verbatim>\<open>kwargs\<close>. An address is an index into the store; allocation
  appends. No method assigns an attribute of an existing template, so the other
  attributes are held by value.
\<close>

type_synonym addr = nat
type_synonym store = "bindings list"

definition alloc :: "store \<Rightarrow> bindings \<Rightarrow> addr \<times> store" where
  "alloc h d = (length h, h @ [d])"

definition dict_update :: "store \<Rightarrow> addr \<Rightarrow> bindings \<Rightarrow> store" where
  "dict_update h a kw = h[a := (h ! a) ++ kw]"

typedecl BaseOutputParser

record template_meta =
  metadata :: "(string \<times> string) list"
  output_parser :: "BaseOutputParser option"

record template_attrs = template_meta +
  kwargs :: addr

text \<open>
  \<^verbatim>\<open>deepcopy(self)\<close>: a new object with a new dictionary of the same contents; strings
  are immutable and copy as themselves.
\<close>

definition deepcopy :: "store \<Rightarrow> 'a template_attrs_scheme \<Rightarrow> 'a template_attrs_scheme \<times> store" where
  "deepcopy h self = (let (a, h') = alloc h (h ! kwargs self) in (self\<lparr>kwargs := a\<rparr>, h'))"

text \<open>
  Modelled from the spec: \<^verbatim>\<open>ChatMessage\<close> of \<^verbatim>\<open>llama_index/llms/base.py\<close> is
  not among the sources; the spec has a role label and a content string. The code reads
  \<^verbatim>\<open>content or ""\<close>, so the content may be absent.
\<close>

record chat_message =
  role :: string
  content :: "string option"

text \<open>
  The collaborators the module calls and does not define: the flattener of a message
  list, the converter of a string to messages, the external template engine of the
  bridged template (its \<^verbatim>\<open>output_parser\<close> attribute, \<^verbatim>\<open>partial\<close>,
  \<^verbatim>\<open>get_prompt\<close>, \<^verbatim>\<open>format\<close>, and \<^verbatim>\<open>format_prompt\<close> followed by the
  translation of its messages) and the default prompt type. They are parameters of the
  model, the functions taken to be total.
\<close>

typedecl LangchainTemplate

record 'llm LangchainSelector =
  lc_default_prompt :: LangchainTemplate
  lc_conditionals :: "(('llm \<Rightarrow> bool) \<times> LangchainTemplate) list"

record 'llm collaborators =
  messages_to_prompt :: "chat_message list \<Rightarrow> string"
  prompt_to_messages :: "string \<Rightarrow> chat_message list"
  lc_output_parser :: "LangchainTemplate \<Rightarrow> BaseOutputParser option"
  lc_partial :: "LangchainTemplate \<Rightarrow> bindings \<Rightarrow> LangchainTemplate"
  lc_get_prompt :: "'llm LangchainSelector \<Rightarrow> 'llm option \<Rightarrow> LangchainTemplate"
  lc_format :: "LangchainTemplate \<Rightarrow> bindings \<Rightarrow> error + string"
  lc_format_messages :: "LangchainTemplate \<Rightarrow> bindings \<Rightarrow> error + chat_message list"
  PromptType_CUSTOM :: string

subsection \<open>Creating an instance\<close>

text \<open>
  \<^verbatim>\<open>BasePromptTemplate\<close> declares as abstract the properties \<^verbatim>\<open>metadata\<close>,
  \<^verbatim>\<open>template_vars\<close>, \<^verbatim>\<open>kwargs\<close>, \<^verbatim>\<open>output_parser\<close> and the methods
  \<^verbatim>\<open>partial_format\<close>, \<^verbatim>\<open>format\<close>, \<^verbatim>\<open>format_messages\<close>. A subclass keeps
  as abstract every such name that its own body does not define; an attribute assigned
  in the initialiser does not count. Calling a class that has an abstract name left
  raises \<^verbatim>\<open>TypeError\<close> before its initialiser runs.
\<close>

definition abstract_members :: "string list" where
  "abstract_members =
     [''metadata'', ''template_vars'', ''kwargs'', ''output_parser'',
      ''partial_format'', ''format'', ''format_messages'']"

datatype template_class =
    Class_ChatPromptTemplate
  | Class_PromptTemplate
  | Class_SelectorPromptTemplate
  | Class_LangchainPromptTemplate

fun class_body :: "template_class \<Rightarrow> string list" where
  "class_body Class_ChatPromptTemplate =
     [''__init__'', ''template_vars'', ''partial_format'', ''format'', ''format_messages'']"
| "class_body Class_PromptTemplate =
     [''__init__'', ''template_vars'', ''partial_format'', ''format'', ''format_messages'']"
| "class_body Class_SelectorPromptTemplate =
     [''__init__'', ''metadata'', ''kwargs'', ''template_vars'', ''output_parser'', ''_select'',
      ''partial_format'', ''format'', ''format_messages'']"
| "class_body Class_LangchainPromptTemplate =
     [''__init__'', ''template_vars'', ''partial_format'', ''format'', ''format_messages'']"

definition abstractmethods :: "template_class \<Rightarrow> string list" where
  "abstractmethods cls = filter (\<lambda>name. name \<notin> set (class_body cls)) abstract_members"

definition instantiate :: "template_class \<Rightarrow> (error + 'a) \<Rightarrow> error + 'a" where
  "instantiate cls init = (if abstractmethods cls = [] then init else Inl TypeError)"

subsection \<open>\<^verbatim>\<open>PromptTemplate\<close>\<close>

text \<open>
  \<^verbatim>\<open>{**self.kwargs, **kwargs}\<close> is the stored dictionary overridden by the call-site
  bindings, \<open>++\<close> on maps. The \<^verbatim>\<open>del llm\<close> of \<^verbatim>\<open>format\<close> and
  \<^verbatim>\<open>format_messages\<close> unbinds a parameter that is not read afterwards.
\<close>

record prompt_template = template_attrs +
  template :: string

definition PromptTemplate_new ::
  "store \<Rightarrow> string \<Rightarrow> string \<Rightarrow> BaseOutputParser option \<Rightarrow> bindings
     \<Rightarrow> error + prompt_template \<times> store" where
  "PromptTemplate_new h tmpl prompt_type parser kw =
     instantiate Class_PromptTemplate
       (let (a, h') = alloc h kw in
        Inr (\<lparr>metadata = [(''prompt_type'', prompt_type)], output_parser = parser, kwargs = a,
              template = tmpl\<rparr>, h'))"

definition PromptTemplate_template_vars :: "prompt_template \<Rightarrow> string list" where
  "PromptTemplate_template_vars self = get_template_vars (template self)"

definition PromptTemplate_partial_format ::
  "store \<Rightarrow> prompt_template \<Rightarrow> bindings \<Rightarrow> prompt_template \<times> store" where
  "PromptTemplate_partial_format h self kw =
     (let (prompt, h1) = deepcopy h self;
          h2 = dict_update h1 (kwargs prompt) kw
      in (prompt, h2))"

definition PromptTemplate_format ::
  "store \<Rightarrow> prompt_template \<Rightarrow> 'llm option \<Rightarrow> bindings \<Rightarrow> error + string" where
  "PromptTemplate_format h self llm kw =
     (let all_kwargs = (h ! kwargs self) ++ kw
      in str_format (template self) all_kwargs)"

definition PromptTemplate_format_messages ::
  "'llm collaborators \<Rightarrow> store \<Rightarrow> prompt_template \<Rightarrow> 'llm option \<Rightarrow> bindings
     \<Rightarrow> error + chat_message list" where
  "PromptTemplate_format_messages ext h self llm kw =
     (case PromptTemplate_format h self (None :: 'llm option) kw of
        Inl e \<Rightarrow> Inl e
      | Inr prompt \<Rightarrow> Inr (prompt_to_messages ext prompt))"

subsection \<open>\<^verbatim>\<open>ChatPromptTemplate\<close>\<close>

text \<open>
  The loop of \<^verbatim>\<open>format_messages\<close> copies each message template and sets the content
  of the copy: a record update, the template itself untouched. An exception of
  \<^verbatim>\<open>str.format\<close> ends the loop.
\<close>

record chat_prompt_template = template_attrs +
  message_templates :: "chat_message list"

definition ChatPromptTemplate_new ::
  "store \<Rightarrow> chat_message list \<Rightarrow> string \<Rightarrow> BaseOutputParser option \<Rightarrow> bindings
     \<Rightarrow> error + chat_prompt_template \<times> store" where
  "ChatPromptTemplate_new h msgs prompt_type parser kw =
     instantiate Class_ChatPromptTemplate
       (let (a, h') = alloc h kw in
        Inr (\<lparr>metadata = [(''prompt_type'', prompt_type)], output_parser = parser, kwargs = a,
              message_templates = msgs\<rparr>, h'))"

definition content_or_empty :: "chat_message \<Rightarrow> string" where
  "content_or_empty m = (case content m of None \<Rightarrow> [] | Some c \<Rightarrow> c)"

fun template_vars_loop :: "chat_message list \<Rightarrow> string list \<Rightarrow> string list" where
  "template_vars_loop [] variables = variables"
| "template_vars_loop (message_template # rest) variables =
     template_vars_loop rest (variables @ get_template_vars (content_or_empty message_template))"

definition ChatPromptTemplate_template_vars :: "chat_prompt_template \<Rightarrow> string list" where
  "ChatPromptTemplate_template_vars self = template_vars_loop (message_templates self) []"

definition ChatPromptTemplate_partial_format ::
  "store \<Rightarrow> chat_prompt_template \<Rightarrow> bindings \<Rightarrow> chat_prompt_template \<times> store" where
  "ChatPromptTemplate_partial_format h self kw =
     (let (prompt, h1) = deepcopy h self;
          h2 = dict_update h1 (kwargs prompt) kw
      in (prompt, h2))"

fun format_messages_loop ::
  "bindings \<Rightarrow> chat_message list \<Rightarrow> chat_message list \<Rightarrow> error + chat_message list" where
  "format_messages_loop all_kwargs [] messages = Inr messages"
| "format_messages_loop all_kwargs (message_template # rest) messages =
     (let template_vars = get_template_vars (content_or_empty message_template);
          relevant_kwargs = all_kwargs |` set template_vars;
          content_template = content_or_empty message_template
      in case str_format content_template relevant_kwargs of
           Inl e \<Rightarrow> Inl e
         | Inr c \<Rightarrow>
             format_messages_loop all_kwargs rest
               (messages @ [message_template\<lparr>content := Some c\<rparr>]))"

definition ChatPromptTemplate_format_messages ::
  "store \<Rightarrow> chat_prompt_template \<Rightarrow> 'llm option \<Rightarrow> bindings \<Rightarrow> error + chat_message list" where
  "ChatPromptTemplate_format_messages h self llm kw =
     (let all_kwargs = (h ! kwargs self) ++ kw
      in format_messages_loop all_kwargs (message_templates self) [])"

definition ChatPromptTemplate_format ::
  "'llm collaborators \<Rightarrow> store \<Rightarrow> chat_prompt_template \<Rightarrow> 'llm option \<Rightarrow> bindings
     \<Rightarrow> error + string" where
  "ChatPromptTemplate_format ext h self llm kw =
     (case ChatPromptTemplate_format_messages h self (None :: 'llm option) kw of
        Inl e \<Rightarrow> Inl e
      | Inr messages \<Rightarrow> Inr (messages_to_prompt ext messages))"

subsection \<open>\<^verbatim>\<open>LangchainPromptTemplate\<close>\<close>

record 'llm langchain_prompt_template = template_meta +
  selector :: "'llm LangchainSelector"

text \<open>
  \<^verbatim>\<open>LangchainPromptTemplate(template, selector, prompt_type)\<close>. The body of the
  initialiser checks that exactly one of \<^verbatim>\<open>template\<close> and \<^verbatim>\<open>selector\<close> is
  given, then reads \<^verbatim>\<open>template.output_parser\<close> on every path: with
  \<^verbatim>\<open>template\<close> absent that is an attribute of \<^verbatim>\<open>None\<close>.
\<close>

definition LangchainPromptTemplate_new ::
  "'llm collaborators \<Rightarrow> LangchainTemplate option \<Rightarrow> 'llm LangchainSelector option \<Rightarrow> string
     \<Rightarrow> error + 'llm langchain_prompt_template" where
  "LangchainPromptTemplate_new ext tmpl sel prompt_type =
     instantiate Class_LangchainPromptTemplate
       (case (case sel of
                None \<Rightarrow>
                  (case tmpl of
                     None \<Rightarrow> Inl ValueError
                   | Some t \<Rightarrow> Inr \<lparr>lc_default_prompt = t, lc_conditionals = []\<rparr>)
              | Some s \<Rightarrow>
                  (case tmpl of
                     Some t \<Rightarrow> Inl ValueError
                   | None \<Rightarrow> Inr s)) of
          Inl e \<Rightarrow> Inl e
        | Inr the_selector \<Rightarrow>
            (case tmpl of
               None \<Rightarrow> Inl AttributeError
             | Some t \<Rightarrow>
                 Inr \<lparr>metadata = [(''prompt_type'', prompt_type)],
                      output_parser = lc_output_parser ext t,
                      selector = the_selector\<rparr>))"

definition LangchainPromptTemplate_partial_format ::
  "'llm collaborators \<Rightarrow> 'llm langchain_prompt_template \<Rightarrow> bindings
     \<Rightarrow> error + 'llm langchain_prompt_template" where
  "LangchainPromptTemplate_partial_format ext self kw =
     (let default_prompt = lc_partial ext (lc_default_prompt (selector self)) kw;
          conditionals =
            map (\<lambda>(condition, prompt). (condition, lc_partial ext prompt kw))
              (lc_conditionals (selector self));
          lc_selector = \<lparr>lc_default_prompt = default_prompt, lc_conditionals = conditionals\<rparr>
      in LangchainPromptTemplate_new ext None (Some lc_selector) (PromptType_CUSTOM ext))"

text \<open>
  A local variable is bound or unbound. \<^verbatim>\<open>del\<close> unbinds it; reading an unbound local
  raises \<^verbatim>\<open>UnboundLocalError\<close>. A parameter is bound on entry, also when its value
  is \<^verbatim>\<open>None\<close>.
\<close>

datatype 'a local = Unbound | Bound 'a

fun del_local :: "'a local \<Rightarrow> error + 'a local" where
  "del_local Unbound = Inl UnboundLocalError"
| "del_local (Bound v) = Inr Unbound"

fun read_local :: "'a local \<Rightarrow> error + 'a" where
  "read_local Unbound = Inl UnboundLocalError"
| "read_local (Bound v) = Inr v"

definition LangchainPromptTemplate_format ::
  "'llm collaborators \<Rightarrow> 'llm langchain_prompt_template \<Rightarrow> 'llm option \<Rightarrow> bindings
     \<Rightarrow> error + string" where
  "LangchainPromptTemplate_format ext self llm kw =
     (case del_local (Bound llm) of
        Inl e \<Rightarrow> Inl e
      | Inr llm_var \<Rightarrow>
          (case read_local llm_var of
             Inl e \<Rightarrow> Inl e
           | Inr l \<Rightarrow> lc_format ext (lc_get_prompt ext (selector self) l) kw))"

definition LangchainPromptTemplate_format_messages ::
  "'llm collaborators \<Rightarrow> 'llm langchain_prompt_template \<Rightarrow> 'llm option \<Rightarrow> bindings
     \<Rightarrow> error + chat_message list" where
  "LangchainPromptTemplate_format_messages ext self llm kw =
     (case del_local (Bound llm) of
        Inl e \<Rightarrow> Inl e
      | Inr llm_var \<Rightarrow>
          (case read_local llm_var of
             Inl e \<Rightarrow> Inl e
           | Inr l \<Rightarrow> lc_format_messages ext (lc_get_prompt ext (selector self) l) kw))"

subsection \<open>\<^verbatim>\<open>SelectorPromptTemplate\<close> and the dispatch over the template classes\<close>

text \<open>
  A selector owns templates of any class, so the templates form a datatype with one
  constructor per class; a method call on a \<^verbatim>\<open>BasePromptTemplate\<close> dispatches on
  the constructor.
\<close>

datatype 'llm base_prompt_template =
    PromptTemplate prompt_template
  | ChatPromptTemplate chat_prompt_template
  | SelectorPromptTemplate
      "'llm base_prompt_template"
      "(('llm \<Rightarrow> bool) \<times> 'llm base_prompt_template) list"
  | LangchainPromptTemplate "'llm langchain_prompt_template"

definition SelectorPromptTemplate_new ::
  "'llm base_prompt_template \<Rightarrow> (('llm \<Rightarrow> bool) \<times> 'llm base_prompt_template) list option
     \<Rightarrow> error + 'llm base_prompt_template" where
  "SelectorPromptTemplate_new dflt conds =
     instantiate Class_SelectorPromptTemplate
       (Inr (SelectorPromptTemplate dflt (case conds of None \<Rightarrow> [] | Some cs \<Rightarrow> cs)))"

fun select_loop :: "(('llm \<Rightarrow> bool) \<times> 'p) list \<Rightarrow> 'llm \<Rightarrow> 'p \<Rightarrow> 'p" where
  "select_loop [] llm dflt = dflt"
| "select_loop ((condition, prompt) # rest) llm dflt =
     (if condition llm then prompt else select_loop rest llm dflt)"

definition SelectorPromptTemplate_select ::
  "'llm base_prompt_template \<Rightarrow> (('llm \<Rightarrow> bool) \<times> 'llm base_prompt_template) list
     \<Rightarrow> 'llm option \<Rightarrow> 'llm base_prompt_template" where
  "SelectorPromptTemplate_select dflt conds llm =
     (case llm of None \<Rightarrow> dflt | Some l \<Rightarrow> select_loop conds l dflt)"

lemma select_loop_cases:
  "select_loop conds l dflt = dflt \<or> select_loop conds l dflt \<in> snd ` set conds"
  by (induction conds l dflt rule: select_loop.induct) auto

lemma size_conditional:
  "(c, p) \<in> set conds \<Longrightarrow> size p < Suc (size_list (size_prod (\<lambda>_. 0) size) conds)"
  by (induction conds) auto

lemma select_smaller:
  "size (SelectorPromptTemplate_select dflt conds llm)
     < Suc (size_list (size_prod (\<lambda>_. 0) size) conds + size dflt)"
proof (cases llm)
  case None
  then show ?thesis by (simp add: SelectorPromptTemplate_select_def)
next
  case (Some l)
  from select_loop_cases[of conds l dflt] show ?thesis
  proof
    assume "select_loop conds l dflt = dflt"
    then show ?thesis using Some by (simp add: SelectorPromptTemplate_select_def)
  next
    assume "select_loop conds l dflt \<in> snd ` set conds"
    then obtain c where "(c, select_loop conds l dflt) \<in> set conds" by force
    from size_conditional[OF this] show ?thesis
      using Some by (simp add: SelectorPromptTemplate_select_def)
  qed
qed

text \<open>
  \<^verbatim>\<open>format\<close> and \<^verbatim>\<open>format_messages\<close> of the selector pass the bindings, not
  the consumer, to the selected template: it is called with \<^verbatim>\<open>llm=None\<close>.
\<close>

function format ::
  "'llm collaborators \<Rightarrow> store \<Rightarrow> 'llm base_prompt_template \<Rightarrow> 'llm option \<Rightarrow> bindings
     \<Rightarrow> error + string" where
  "format ext h (PromptTemplate t) llm kw = PromptTemplate_format h t llm kw"
| "format ext h (ChatPromptTemplate t) llm kw = ChatPromptTemplate_format ext h t llm kw"
| "format ext h (SelectorPromptTemplate dflt conds) llm kw =
     (let prompt = SelectorPromptTemplate_select dflt conds llm
      in format ext h prompt None kw)"
| "format ext h (LangchainPromptTemplate t) llm kw = LangchainPromptTemplate_format ext t llm kw"
  by pat_completeness auto
termination
  by (relation "measure (\<lambda>(ext, h, t, llm, kw). size t)") (simp_all add: select_smaller)

function format_messages ::
  "'llm collaborators \<Rightarrow> store \<Rightarrow> 'llm base_prompt_template \<Rightarrow> 'llm option \<Rightarrow> bindings
     \<Rightarrow> error + chat_message list" where
  "format_messages ext h (PromptTemplate t) llm kw = PromptTemplate_format_messages ext h t llm kw"
| "format_messages ext h (ChatPromptTemplate t) llm kw =
     ChatPromptTemplate_format_messages h t llm kw"
| "format_messages ext h (SelectorPromptTemplate dflt conds) llm kw =
     (let prompt = SelectorPromptTemplate_select dflt conds llm
      in format_messages ext h prompt None kw)"
| "format_messages ext h (LangchainPromptTemplate t) llm kw =
     LangchainPromptTemplate_format_messages ext t llm kw"
  by pat_completeness auto
termination
  by (relation "measure (\<lambda>(ext, h, t, llm, kw). size t)") (simp_all add: select_smaller)

text \<open>
  \<^verbatim>\<open>partial_format\<close> of the selector binds the default template, then each
  conditional template in list order, and builds a new selector from the results; an
  exception of one of the calls ends it.
\<close>

function partial_format ::
    "'llm collaborators \<Rightarrow> store \<Rightarrow> 'llm base_prompt_template \<Rightarrow> bindings
       \<Rightarrow> error + 'llm base_prompt_template \<times> store"
  and partial_format_conditionals ::
    "'llm collaborators \<Rightarrow> store \<Rightarrow> (('llm \<Rightarrow> bool) \<times> 'llm base_prompt_template) list \<Rightarrow> bindings
       \<Rightarrow> error + (('llm \<Rightarrow> bool) \<times> 'llm base_prompt_template) list \<times> store" where
  "partial_format ext h (PromptTemplate t) kw =
     (let (prompt, h') = PromptTemplate_partial_format h t kw in Inr (PromptTemplate prompt, h'))"
| "partial_format ext h (ChatPromptTemplate t) kw =
     (let (prompt, h') = ChatPromptTemplate_partial_format h t kw
      in Inr (ChatPromptTemplate prompt, h'))"
| "partial_format ext h (SelectorPromptTemplate dflt conds) kw =
     (case partial_format ext h dflt kw of
        Inl e \<Rightarrow> Inl e
      | Inr (default_prompt, h1) \<Rightarrow>
          (case partial_format_conditionals ext h1 conds kw of
             Inl e \<Rightarrow> Inl e
           | Inr (conditionals, h2) \<Rightarrow>
               (case SelectorPromptTemplate_new default_prompt (Some conditionals) of
                  Inl e \<Rightarrow> Inl e
                | Inr prompt \<Rightarrow> Inr (prompt, h2))))"
| "partial_format ext h (LangchainPromptTemplate t) kw =
     (case LangchainPromptTemplate_partial_format ext t kw of
        Inl e \<Rightarrow> Inl e
      | Inr prompt \<Rightarrow> Inr (LangchainPromptTemplate prompt, h))"
| "partial_format_conditionals ext h [] kw = Inr ([], h)"
| "partial_format_conditionals ext h ((condition, prompt) # rest) kw =
     (case partial_format ext h prompt kw of
        Inl e \<Rightarrow> Inl e
      | Inr (prompt', h1) \<Rightarrow>
          (case partial_format_conditionals ext h1 rest kw of
             Inl e \<Rightarrow> Inl e
           | Inr (rest', h2) \<Rightarrow> Inr ((condition, prompt') # rest', h2)))"
  by pat_completeness auto
termination
  by (relation "measure (\<lambda>x. case x of
          Inl (ext, h, t, kw) \<Rightarrow> 2 * size t
        | Inr (ext, h, conds, kw) \<Rightarrow> 2 * size_list (size_prod (\<lambda>_. 0) size) conds + 1)")
     simp_all

text \<open>Every dictionary a template refers to is in the store.\<close>

fun valid_refs :: "store \<Rightarrow> 'llm base_prompt_template \<Rightarrow> bool" where
  "valid_refs h (PromptTemplate t) = (kwargs t < length h)"
| "valid_refs h (ChatPromptTemplate t) = (kwargs t < length h)"
| "valid_refs h (SelectorPromptTemplate dflt conds) =
     (valid_refs h dflt \<and> list_all (\<lambda>cp. valid_refs h (snd cp)) conds)"
| "valid_refs h (LangchainPromptTemplate t) = True"

text \<open>Whether a template is, or owns, a bridged template.\<close>

fun has_bridged :: "'llm base_prompt_template \<Rightarrow> bool" where
  "has_bridged (PromptTemplate t) = False"
| "has_bridged (ChatPromptTemplate t) = False"
| "has_bridged (SelectorPromptTemplate dflt conds) =
     (has_bridged dflt \<or> list_ex (\<lambda>cp. has_bridged (snd cp)) conds)"
| "has_bridged (LangchainPromptTemplate t) = True"

text \<open>
  A later store extends an earlier one when every dictionary of the earlier one is still
  there, at its address, with its contents.
\<close>

definition extends :: "store \<Rightarrow> store \<Rightarrow> bool" where
  "extends h h' = (length h \<le> length h' \<and> (\<forall>a<length h. h' ! a = h ! a))"

text \<open>
  \<open>binds ext h t kw h' t'\<close>: the template \<open>t'\<close> in the store \<open>h'\<close> is \<open>t\<close> of the store
  \<open>h\<close> partially bound with \<open>kw\<close>, in that rendering \<open>t'\<close> with call-site bindings
  \<open>kw'\<close> is rendering \<open>t\<close> with \<open>kw\<close> overridden by \<open>kw'\<close>.
\<close>

definition binds :: "'llm collaborators \<Rightarrow> store \<Rightarrow> 'llm base_prompt_template \<Rightarrow> bindings
    \<Rightarrow> store \<Rightarrow> 'llm base_prompt_template \<Rightarrow> bool" where
  "binds ext h t kw h' t' =
     ((\<forall>llm kw'. format ext h' t' llm kw' = format ext h t llm (kw ++ kw')) \<and>
      (\<forall>llm kw'. format_messages ext h' t' llm kw' = format_messages ext h t llm (kw ++ kw')))"

text \<open>
  One instance of the collaborators, to evaluate the model on examples: the flattener
  writes \<^verbatim>\<open>role: content;\<close> for each message.
\<close>

definition example_collaborators :: "'llm collaborators" where
  "example_collaborators =
     \<lparr>messages_to_prompt =
        (\<lambda>ms. concat (map (\<lambda>m. role m @ '': '' @ content_or_empty m @ '';'') ms)),
      prompt_to_messages = (\<lambda>s. [\<lparr>role = ''user'', content = Some s\<rparr>]),
      lc_output_parser = (\<lambda>t. None),
      lc_partial = (\<lambda>t kw. t),
      lc_get_prompt = (\<lambda>s llm. lc_default_prompt s),
      lc_format = (\<lambda>t kw. Inr []),
      lc_format_messages = (\<lambda>t kw. Inr []),
      PromptType_CUSTOM = ''custom''\<rparr>"

text \<open>
  The spec's wording of one rendered message, to compare the loop with: the content of
  the message template with only the bindings substituted whose keys are among that
  message's own placeholders.
\<close>

definition substituted_content :: "bindings \<Rightarrow> chat_message \<Rightarrow> error + string" where
  "substituted_content all_kwargs m =
     str_format (content_or_empty m)
       (all_kwargs |` set (get_template_vars (content_or_empty m)))"

section \<open>Properties\<close>

subsection \<open>Rendering plain template strings\<close>

lemmas eval_defs = PromptTemplate_format_def PromptTemplate_template_vars_def str_format_def
  get_template_vars_def render_field_def render_compound_def get_argument_def arg_name_def
  is_digit_def plain_template_def plain_field_def decimal_def PY_SSIZE_T_MAX_def
  content_or_empty_def

lemma arg_name_plain: "plain_field f \<Longrightarrow> arg_name f = f"
  by (auto simp: plain_field_def arg_name_def takeWhile_eq_all_conv)

lemma render_field_plain:
  "plain_field f \<Longrightarrow>
     render_field kw f = (case kw f of None \<Rightarrow> Inl (KeyError f) | Some v \<Rightarrow> Inr v)"
  by (auto simp: render_field_def get_argument_def arg_name_plain Let_def plain_field_def
      split: option.splits)

lemma render_plain_agree:
  "list_all plain_token ts \<Longrightarrow> (\<forall>f\<in>set (field_names ts). kw f = kw' f) \<Longrightarrow>
     render kw ts = render kw' ts"
proof (induction ts)
  case Nil
  then show ?case by simp
next
  case (Cons t ts)
  then show ?case
    by (cases t) (auto simp: render_field_plain plain_field_def split: sum.splits option.splits)
qed

lemma render_plain_raises:
  "list_all plain_token ts \<Longrightarrow>
     (\<exists>e. render kw ts = Inl e) \<longleftrightarrow> (\<exists>p\<in>set (field_names ts). kw p = None)"
proof (induction ts)
  case Nil
  then show ?case by simp
next
  case (Cons t ts)
  then show ?case
    by (cases t) (auto simp: render_field_plain plain_field_def split: sum.splits option.splits)
qed

lemma render_plain_key_error:
  "list_all plain_token ts \<Longrightarrow> render kw ts = Inl e \<Longrightarrow>
     \<exists>p\<in>set (field_names ts). kw p = None \<and> e = KeyError p"
proof (induction ts)
  case Nil
  then show ?case by simp
next
  case (Cons t ts)
  then show ?case
    by (cases t) (auto simp: render_field_plain plain_field_def split: sum.splits option.splits)
qed

subsection \<open>The string template\<close>

text \<open>
  C2, as the claim states it, fails: a template string that is not plain makes
  \<^verbatim>\<open>format\<close> raise whatever is bound. The template \<^verbatim>\<open>"{}"\<close> has no placeholder
  (\<^verbatim>\<open>template_vars\<close> is empty), so no placeholder lacks a value, and \<^verbatim>\<open>format()\<close>
  raises \<^verbatim>\<open>IndexError\<close>; likewise the template \<^verbatim>\<open>"}"\<close> raises
  \<^verbatim>\<open>ValueError\<close>.
\<close>

theorem format_raises_unnamed_field:
  "\<not> ((\<exists>e. PromptTemplate_format [Map.empty]
            \<lparr>metadata = [], output_parser = None, kwargs = 0, template = ''{}''\<rparr>
            (None :: unit option) Map.empty = Inl e) \<longleftrightarrow>
        (\<exists>p. p \<in> set (PromptTemplate_template_vars
                 \<lparr>metadata = [], output_parser = None, kwargs = 0, template = ''{}''\<rparr>)
             \<and> p \<notin> dom ([Map.empty] ! 0 ++ Map.empty)))
   \<and> PromptTemplate_template_vars
       \<lparr>metadata = [], output_parser = None, kwargs = 0, template = ''{}''\<rparr> = []
   \<and> PromptTemplate_format [Map.empty]
       \<lparr>metadata = [], output_parser = None, kwargs = 0, template = ''{}''\<rparr>
       (None :: unit option) Map.empty = Inl IndexError
   \<and> PromptTemplate_template_vars
       \<lparr>metadata = [], output_parser = None, kwargs = 0, template = ''}''\<rparr> = []
   \<and> PromptTemplate_format [Map.empty]
       \<lparr>metadata = [], output_parser = None, kwargs = 0, template = ''}''\<rparr>
       (None :: unit option) Map.empty = Inl ValueError"
  by (simp add: eval_defs)

text \<open>
  C2, amended: for every string template whose template string is plain, \<^verbatim>\<open>format\<close>
  raises if and only if some placeholder of the template string has no value in the
  stored bindings overridden by the call-site bindings; the error is then the
  \<^verbatim>\<open>KeyError\<close> of such a placeholder; and the result is that of formatting with the
  bindings of the placeholders alone, so bound keys that are not placeholders are ignored.
\<close>

theorem format_raises_iff_placeholder_unbound:
  assumes "plain_template (template self)"
  shows "((\<exists>e. PromptTemplate_format h self llm kw = Inl e) \<longleftrightarrow>
           (\<exists>p\<in>set (PromptTemplate_template_vars self). p \<notin> dom (h ! kwargs self ++ kw)))
       \<and> (\<forall>e. PromptTemplate_format h self llm kw = Inl e \<longrightarrow>
             (\<exists>p\<in>set (PromptTemplate_template_vars self).
                 p \<notin> dom (h ! kwargs self ++ kw) \<and> e = KeyError p))
       \<and> PromptTemplate_format h self llm kw =
           str_format (template self)
             ((h ! kwargs self ++ kw) |` set (PromptTemplate_template_vars self))"
proof -
  let ?ts = "markup Outside (template self)"
  let ?all = "h ! kwargs self ++ kw"
  have pl: "list_all plain_token ?ts"
    using assms by (simp add: plain_template_def)
  have fmt: "PromptTemplate_format h self llm kw = render ?all ?ts"
    by (simp add: PromptTemplate_format_def str_format_def)
  have vars: "PromptTemplate_template_vars self = field_names ?ts"
    by (simp add: PromptTemplate_template_vars_def get_template_vars_def)
  have a: "(\<exists>e. render ?all ?ts = Inl e) \<longleftrightarrow> (\<exists>p\<in>set (field_names ?ts). p \<notin> dom ?all)"
    using render_plain_raises[OF pl, of ?all] by (simp add: domIff)
  have b: "\<forall>e. render ?all ?ts = Inl e \<longrightarrow>
             (\<exists>p\<in>set (field_names ?ts). p \<notin> dom ?all \<and> e = KeyError p)"
    using render_plain_key_error[OF pl, of ?all] by (fastforce simp: domIff)
  have c: "render ?all ?ts = render (?all |` set (field_names ?ts)) ?ts"
    by (rule render_plain_agree[OF pl]) simp
  show ?thesis
    unfolding fmt vars using a b c by (simp add: str_format_def)
qed

theorem format_raises_iff_placeholder_unbound_witness:
  "plain_template ''{a}-{b}'' \<and>
   PromptTemplate_format [[''a'' \<mapsto> ''1'', ''z'' \<mapsto> ''9'']]
     \<lparr>metadata = [], output_parser = None, kwargs = 0, template = ''{a}-{b}''\<rparr>
     (None :: unit option) Map.empty = Inl (KeyError ''b'') \<and>
   PromptTemplate_format [[''a'' \<mapsto> ''1'', ''z'' \<mapsto> ''9'']]
     \<lparr>metadata = [], output_parser = None, kwargs = 0, template = ''{a}-{b}''\<rparr>
     (None :: unit option) [''b'' \<mapsto> ''2''] = Inr ''1-2''"
  using format_raises_iff_placeholder_unbound
    [of "\<lparr>metadata = [], output_parser = None, kwargs = 0, template = ''{a}-{b}''\<rparr>"
      "[[''a'' \<mapsto> ''1'', ''z'' \<mapsto> ''9'']]" "None :: unit option" Map.empty]
  by (simp add: eval_defs)

subsection \<open>The chat template\<close>

lemma template_vars_loop_acc:
  "template_vars_loop ms acc =
     acc @ concat (map (\<lambda>m. get_template_vars (content_or_empty m)) ms)"
  by (induction ms arbitrary: acc) simp_all

text \<open>
  C10: the \<^verbatim>\<open>template_vars\<close> of a chat template is the concatenation, in message
  order, of the placeholder lists the extractor gives for each message's own content (the
  empty string when a message has no content); nothing is removed, so a name that occurs
  in two messages occurs twice.
\<close>

theorem chat_template_vars_concat:
  "ChatPromptTemplate_template_vars self =
     concat (map (\<lambda>m. get_template_vars (case content m of None \<Rightarrow> [] | Some c \<Rightarrow> c))
       (message_templates self))"
  by (simp add: ChatPromptTemplate_template_vars_def template_vars_loop_acc content_or_empty_def)

theorem chat_template_vars_concat_witness:
  "ChatPromptTemplate_template_vars
     \<lparr>metadata = [], output_parser = None, kwargs = 0,
       message_templates =
         [\<lparr>role = ''system'', content = Some ''You are {persona}''\<rparr>,
          \<lparr>role = ''user'', content = Some ''{query} for {persona}''\<rparr>,
          \<lparr>role = ''assistant'', content = None\<rparr>]\<rparr>
   = [''persona'', ''query'', ''persona'']"
  using chat_template_vars_concat
    [of "\<lparr>metadata = [], output_parser = None, kwargs = 0,
       message_templates =
         [\<lparr>role = ''system'', content = Some ''You are {persona}''\<rparr>,
          \<lparr>role = ''user'', content = Some ''{query} for {persona}''\<rparr>,
          \<lparr>role = ''assistant'', content = None\<rparr>]\<rparr>"]
  by (simp add: get_template_vars_def)

lemma loop_Inr:
  "format_messages_loop kw mts acc = Inr ms \<Longrightarrow>
     \<exists>out. ms = acc @ out \<and> length out = length mts \<and>
       (\<forall>i<length mts. role (out ! i) = role (mts ! i) \<and>
          (\<exists>c. content (out ! i) = Some c \<and> substituted_content kw (mts ! i) = Inr c))"
proof (induction mts arbitrary: acc)
  case Nil
  then show ?case by simp
next
  case (Cons m mts)
  from Cons.prems obtain c where
    c: "substituted_content kw m = Inr c" and
    rest: "format_messages_loop kw mts (acc @ [m\<lparr>content := Some c\<rparr>]) = Inr ms"
    by (auto simp: substituted_content_def Let_def split: sum.splits)
  from Cons.IH[OF rest] obtain out where
    out: "ms = (acc @ [m\<lparr>content := Some c\<rparr>]) @ out" "length out = length mts"
      "\<forall>i<length mts. role (out ! i) = role (mts ! i) \<and>
          (\<exists>c. content (out ! i) = Some c \<and> substituted_content kw (mts ! i) = Inr c)"
    by blast
  let ?out = "m\<lparr>content := Some c\<rparr> # out"
  have "ms = acc @ ?out" using out(1) by simp
  moreover have "length ?out = length (m # mts)" using out(2) by simp
  moreover have "\<forall>i<length (m # mts). role (?out ! i) = role ((m # mts) ! i) \<and>
          (\<exists>c. content (?out ! i) = Some c \<and> substituted_content kw ((m # mts) ! i) = Inr c)"
  proof (intro allI impI)
    fix i assume "i < length (m # mts)"
    then show "role (?out ! i) = role ((m # mts) ! i) \<and>
          (\<exists>c. content (?out ! i) = Some c \<and> substituted_content kw ((m # mts) ! i) = Inr c)"
      using out(3) c by (cases i) auto
  qed
  ultimately show ?case by blast
qed

lemma loop_total:
  "(\<forall>m\<in>set mts. \<exists>c. substituted_content kw m = Inr c) \<Longrightarrow>
     \<exists>ms. format_messages_loop kw mts acc = Inr ms"
  by (induction mts arbitrary: acc) (auto simp: substituted_content_def Let_def split: sum.splits)

lemma loop_cong:
  "(\<forall>m\<in>set mts. substituted_content kw m = substituted_content kw' m) \<Longrightarrow>
     format_messages_loop kw mts acc = format_messages_loop kw' mts acc"
  by (induction mts arbitrary: acc) (auto simp: substituted_content_def Let_def split: sum.splits)

lemma restrict_extra: "k \<notin> S \<Longrightarrow> (m(k \<mapsto> v)) |` S = m |` S"
  by (auto simp: restrict_map_def fun_eq_iff)

lemma substituted_content_extra:
  "k \<notin> set (get_template_vars (content_or_empty m)) \<Longrightarrow>
     substituted_content (kw(k \<mapsto> v)) m = substituted_content kw m"
  by (simp add: substituted_content_def restrict_extra)

text \<open>
  C1: \<^verbatim>\<open>format_messages\<close> of a chat template, when it returns, returns one message
  per message template, in the same order, each with the role of its template and with
  the content \<open>substituted_content\<close> gives for the stored bindings overridden by the
  call-site bindings; it returns whenever every message renders; a bound key that is not
  a placeholder of a message changes nothing for that message, and one that is a
  placeholder of no message leaves the whole result as it is.
\<close>

theorem format_messages_one_to_one:
  "(ChatPromptTemplate_format_messages h self llm kw = Inr ms \<longrightarrow>
      length ms = length (message_templates self) \<and>
      (\<forall>i<length ms.
         role (ms ! i) = role (message_templates self ! i) \<and>
         (\<exists>c. content (ms ! i) = Some c \<and>
              substituted_content (h ! kwargs self ++ kw) (message_templates self ! i) = Inr c)))
   \<and> ((\<forall>m\<in>set (message_templates self).
          \<exists>c. substituted_content (h ! kwargs self ++ kw) m = Inr c) \<longrightarrow>
        (\<exists>ms. ChatPromptTemplate_format_messages h self llm kw = Inr ms))
   \<and> (\<forall>m. k \<notin> set (get_template_vars (content_or_empty m)) \<longrightarrow>
          substituted_content ((h ! kwargs self ++ kw)(k \<mapsto> v)) m =
          substituted_content (h ! kwargs self ++ kw) m)
   \<and> ((\<forall>m\<in>set (message_templates self). k \<notin> set (get_template_vars (content_or_empty m))) \<longrightarrow>
        ChatPromptTemplate_format_messages h self llm (kw(k \<mapsto> v)) =
        ChatPromptTemplate_format_messages h self llm kw)"
proof (intro conjI impI allI)
  assume r: "ChatPromptTemplate_format_messages h self llm kw = Inr ms"
  then have "format_messages_loop (h ! kwargs self ++ kw) (message_templates self) [] = Inr ms"
    by (simp add: ChatPromptTemplate_format_messages_def)
  from loop_Inr[OF this] obtain out where
    out: "ms = out" "length out = length (message_templates self)"
      "\<forall>i<length (message_templates self). role (out ! i) = role (message_templates self ! i) \<and>
          (\<exists>c. content (out ! i) = Some c \<and>
               substituted_content (h ! kwargs self ++ kw) (message_templates self ! i) = Inr c)"
    by auto
  show "length ms = length (message_templates self)" using out by simp
  fix i assume "i < length ms"
  then show "role (ms ! i) = role (message_templates self ! i)"
    and "\<exists>c. content (ms ! i) = Some c \<and>
              substituted_content (h ! kwargs self ++ kw) (message_templates self ! i) = Inr c"
    using out by auto
next
  assume "\<forall>m\<in>set (message_templates self).
          \<exists>c. substituted_content (h ! kwargs self ++ kw) m = Inr c"
  from loop_total[OF this]
  show "\<exists>ms. ChatPromptTemplate_format_messages h self llm kw = Inr ms"
    by (simp add: ChatPromptTemplate_format_messages_def)
next
  fix m assume "k \<notin> set (get_template_vars (content_or_empty m))"
  then show "substituted_content ((h ! kwargs self ++ kw)(k \<mapsto> v)) m =
          substituted_content (h ! kwargs self ++ kw) m"
    by (rule substituted_content_extra)
next
  assume a: "\<forall>m\<in>set (message_templates self). k \<notin> set (get_template_vars (content_or_empty m))"
  have "format_messages_loop ((h ! kwargs self ++ kw)(k \<mapsto> v)) (message_templates self) [] =
        format_messages_loop (h ! kwargs self ++ kw) (message_templates self) []"
    by (rule loop_cong) (use a in \<open>simp add: substituted_content_extra\<close>)
  then show "ChatPromptTemplate_format_messages h self llm (kw(k \<mapsto> v)) =
        ChatPromptTemplate_format_messages h self llm kw"
    by (simp add: ChatPromptTemplate_format_messages_def)
qed

theorem format_messages_one_to_one_witness:
  "ChatPromptTemplate_format_messages [Map.empty]
     \<lparr>metadata = [], output_parser = None, kwargs = 0,
       message_templates =
         [\<lparr>role = ''system'', content = Some ''You are {persona}''\<rparr>,
          \<lparr>role = ''user'', content = Some ''{query}''\<rparr>]\<rparr>
     (None :: unit option)
     [''persona'' \<mapsto> ''helpful'', ''query'' \<mapsto> ''2+2?'']
   = Inr [\<lparr>role = ''system'', content = Some ''You are helpful''\<rparr>,
          \<lparr>role = ''user'', content = Some ''2+2?''\<rparr>]
   \<and>
   ChatPromptTemplate_format_messages [Map.empty]
     \<lparr>metadata = [], output_parser = None, kwargs = 0,
       message_templates =
         [\<lparr>role = ''system'', content = Some ''You are {persona}''\<rparr>,
          \<lparr>role = ''user'', content = Some ''{query}''\<rparr>]\<rparr>
     (None :: unit option)
     [''persona'' \<mapsto> ''helpful'', ''query'' \<mapsto> ''2+2?'', ''extra'' \<mapsto> ''x'']
   = Inr [\<lparr>role = ''system'', content = Some ''You are helpful''\<rparr>,
          \<lparr>role = ''user'', content = Some ''2+2?''\<rparr>]"
proof -
  let ?t = "\<lparr>metadata = [], output_parser = None, kwargs = 0,
       message_templates =
         [\<lparr>role = ''system'', content = Some ''You are {persona}''\<rparr>,
          \<lparr>role = ''user'', content = Some ''{query}''\<rparr>]\<rparr>"
  let ?kw = "[''persona'' \<mapsto> ''helpful'', ''query'' \<mapsto> ''2+2?'']"
  have e: "ChatPromptTemplate_format_messages [Map.empty] ?t (None :: unit option) ?kw
    = Inr [\<lparr>role = ''system'', content = Some ''You are helpful''\<rparr>,
          \<lparr>role = ''user'', content = Some ''2+2?''\<rparr>]"
    by (simp add: ChatPromptTemplate_format_messages_def eval_defs restrict_map_def)
  have n: "\<forall>m\<in>set (message_templates ?t). ''extra'' \<notin> set (get_template_vars (content_or_empty m))"
    by (simp add: eval_defs)
  from format_messages_one_to_one[of "[Map.empty]" ?t "None :: unit option" ?kw _ "''extra''" "''x''"] n
  have "ChatPromptTemplate_format_messages [Map.empty] ?t (None :: unit option) (?kw(''extra'' \<mapsto> ''x''))
      = ChatPromptTemplate_format_messages [Map.empty] ?t (None :: unit option) ?kw"
    by blast
  with e show ?thesis by simp
qed

text \<open>
  C7: when \<^verbatim>\<open>format_messages\<close> of a chat template succeeds, \<^verbatim>\<open>format\<close> with the
  same bindings returns the flattener applied to its message list (and when it raises,
  \<^verbatim>\<open>format\<close> raises the same).
\<close>

theorem chat_format_flattens_format_messages:
  "(ChatPromptTemplate_format_messages h self llm kw = Inr ms \<longrightarrow>
      ChatPromptTemplate_format ext h self llm kw = Inr (messages_to_prompt ext ms))
   \<and> (ChatPromptTemplate_format_messages h self llm kw = Inl e \<longrightarrow>
      ChatPromptTemplate_format ext h self llm kw = Inl e)"
  by (simp add: ChatPromptTemplate_format_def ChatPromptTemplate_format_messages_def)

theorem chat_format_flattens_format_messages_witness:
  "ChatPromptTemplate_format (example_collaborators :: unit collaborators) [Map.empty]
     \<lparr>metadata = [], output_parser = None, kwargs = 0,
       message_templates =
         [\<lparr>role = ''system'', content = Some ''You are {persona}''\<rparr>,
          \<lparr>role = ''user'', content = Some ''{query}''\<rparr>]\<rparr>
     None [''persona'' \<mapsto> ''helpful'', ''query'' \<mapsto> ''2+2?'']
   = Inr ''system: You are helpful;user: 2+2?;''"
proof -
  let ?t = "\<lparr>metadata = [], output_parser = None, kwargs = 0,
       message_templates =
         [\<lparr>role = ''system'', content = Some ''You are {persona}''\<rparr>,
          \<lparr>role = ''user'', content = Some ''{query}''\<rparr>]\<rparr>"
  let ?kw = "[''persona'' \<mapsto> ''helpful'', ''query'' \<mapsto> ''2+2?'']"
  let ?ms = "[\<lparr>role = ''system'', content = Some ''You are helpful''\<rparr>,
          \<lparr>role = ''user'', content = Some ''2+2?''\<rparr>]"
  have e: "ChatPromptTemplate_format_messages [Map.empty] ?t (None :: unit option) ?kw = Inr ?ms"
    by (simp add: ChatPromptTemplate_format_messages_def eval_defs restrict_map_def)
  from chat_format_flattens_format_messages
    [of "[Map.empty]" ?t None ?kw ?ms "example_collaborators :: unit collaborators"] e
  have "ChatPromptTemplate_format (example_collaborators :: unit collaborators) [Map.empty] ?t None ?kw
      = Inr (messages_to_prompt (example_collaborators :: unit collaborators) ?ms)"
    by blast
  then show ?thesis
    by (simp add: example_collaborators_def content_or_empty_def)
qed

subsection \<open>The bridged template\<close>

lemma abstractmethods_LangchainPromptTemplate:
  "abstractmethods Class_LangchainPromptTemplate = [''metadata'', ''kwargs'', ''output_parser'']"
  by (simp add: abstractmethods_def abstract_members_def)

lemma abstractmethods_SelectorPromptTemplate:
  "abstractmethods Class_SelectorPromptTemplate = []"
  by (simp add: abstractmethods_def abstract_members_def)

lemma construction_of_the_other_classes:
  "PromptTemplate_new h tmpl prompt_type parser kw = Inl TypeError"
  "ChatPromptTemplate_new h msgs prompt_type parser kw = Inl TypeError"
  "SelectorPromptTemplate_new dflt None = Inr (SelectorPromptTemplate dflt [])"
  by (simp_all add: PromptTemplate_new_def ChatPromptTemplate_new_def
      SelectorPromptTemplate_new_def instantiate_def abstractmethods_def abstract_members_def)

text \<open>
  C3: constructing a bridged template raises \<^verbatim>\<open>TypeError\<close> whatever is supplied:
  the class body defines none of \<^verbatim>\<open>metadata\<close>, \<^verbatim>\<open>kwargs\<close> and
  \<^verbatim>\<open>output_parser\<close>, so the class is abstract and is refused before the initialiser
  and its check of the two arguments run. The claim has construction succeed when exactly
  one of \<^verbatim>\<open>template\<close> and \<^verbatim>\<open>selector\<close> is supplied, and raise the configuration
  error otherwise.
\<close>

theorem langchain_construction_raises_type_error:
  "LangchainPromptTemplate_new ext tmpl sel prompt_type = Inl TypeError
   \<and> abstractmethods Class_LangchainPromptTemplate = [''metadata'', ''kwargs'', ''output_parser'']"
  by (simp add: LangchainPromptTemplate_new_def instantiate_def
      abstractmethods_LangchainPromptTemplate)

text \<open>
  C4: \<^verbatim>\<open>format\<close> and \<^verbatim>\<open>format_messages\<close> of a bridged template raise
  \<^verbatim>\<open>UnboundLocalError\<close> for every template, consumer and bindings, also when called
  through the dispatch: both delete the local \<^verbatim>\<open>llm\<close> and then read it.
\<close>

theorem langchain_format_unbound_llm:
  "LangchainPromptTemplate_format ext self llm kw = Inl UnboundLocalError
   \<and> LangchainPromptTemplate_format_messages ext self llm kw = Inl UnboundLocalError
   \<and> format ext h (LangchainPromptTemplate self) llm kw = Inl UnboundLocalError
   \<and> format_messages ext h (LangchainPromptTemplate self) llm kw = Inl UnboundLocalError"
  by (simp add: LangchainPromptTemplate_format_def LangchainPromptTemplate_format_messages_def)

subsection \<open>The selector\<close>

lemma select_loop_first:
  "i < length conds \<Longrightarrow> fst (conds ! i) l \<Longrightarrow> (\<forall>j<i. \<not> fst (conds ! j) l) \<Longrightarrow>
     select_loop conds l dflt = snd (conds ! i)"
proof (induction conds l dflt arbitrary: i rule: select_loop.induct)
  case (1 llm dflt)
  then show ?case by simp
next
  case (2 condition prompt rest llm dflt)
  show ?case
  proof (cases i)
    case 0
    with 2 show ?thesis by simp
  next
    case (Suc k)
    with 2 have "\<not> condition llm" by fastforce
    moreover have "select_loop rest llm dflt = snd (rest ! k)"
      using 2 Suc \<open>\<not> condition llm\<close> by (intro "2.IH") auto
    ultimately show ?thesis using Suc by simp
  qed
qed

lemma select_loop_none:
  "(\<forall>cp\<in>set conds. \<not> fst cp l) \<Longrightarrow> select_loop conds l dflt = dflt"
  by (induction conds l dflt rule: select_loop.induct) auto

text \<open>
  C6: without a consumer the selector selects its default template; with a consumer it
  selects the template of the first pair, in list order, whose predicate holds of the
  consumer; and when no predicate holds it selects the default template, \<^verbatim>\<open>format\<close>
  then being \<^verbatim>\<open>format\<close> of the default template with the same bindings.
\<close>

theorem selector_first_match_wins:
  "SelectorPromptTemplate_select dflt conds None = dflt
   \<and> (i < length conds \<and> fst (conds ! i) l \<and> (\<forall>j<i. \<not> fst (conds ! j) l) \<longrightarrow>
        SelectorPromptTemplate_select dflt conds (Some l) = snd (conds ! i))
   \<and> ((\<forall>cp\<in>set conds. \<not> fst cp l) \<longrightarrow>
        SelectorPromptTemplate_select dflt conds (Some l) = dflt
        \<and> format ext h (SelectorPromptTemplate dflt conds) (Some l) kw = format ext h dflt None kw)
   \<and> format ext h (SelectorPromptTemplate dflt conds) None kw = format ext h dflt None kw"
  by (auto simp: SelectorPromptTemplate_select_def select_loop_first select_loop_none)

theorem selector_first_match_wins_witness:
  "SelectorPromptTemplate_select
     (PromptTemplate \<lparr>metadata = [], output_parser = None, kwargs = 0, template = ''default {x}''\<rparr>)
     [((\<lambda>n. 5 < n), PromptTemplate \<lparr>metadata = [], output_parser = None, kwargs = 0, template = ''big {x}''\<rparr>),
      ((\<lambda>n. 2 < n), PromptTemplate \<lparr>metadata = [], output_parser = None, kwargs = 0, template = ''medium {x}''\<rparr>),
      ((\<lambda>n. 1 < n), PromptTemplate \<lparr>metadata = [], output_parser = None, kwargs = 0, template = ''small {x}''\<rparr>)]
     (Some (4 :: nat))
   = PromptTemplate \<lparr>metadata = [], output_parser = None, kwargs = 0, template = ''medium {x}''\<rparr>
   \<and>
   format (example_collaborators :: nat collaborators) [Map.empty]
     (SelectorPromptTemplate
       (PromptTemplate \<lparr>metadata = [], output_parser = None, kwargs = 0, template = ''default {x}''\<rparr>)
       [((\<lambda>n. 5 < n), PromptTemplate \<lparr>metadata = [], output_parser = None, kwargs = 0, template = ''big {x}''\<rparr>),
        ((\<lambda>n. 2 < n), PromptTemplate \<lparr>metadata = [], output_parser = None, kwargs = 0, template = ''medium {x}''\<rparr>),
        ((\<lambda>n. 1 < n), PromptTemplate \<lparr>metadata = [], output_parser = None, kwargs = 0, template = ''small {x}''\<rparr>)])
     (Some (0 :: nat)) [''x'' \<mapsto> ''1'']
   = Inr ''default 1''"
proof -
  let ?d = "PromptTemplate \<lparr>metadata = [], output_parser = None, kwargs = 0, template = ''default {x}''\<rparr>
              :: nat base_prompt_template"
  let ?cs = "[((\<lambda>n. 5 < n), PromptTemplate \<lparr>metadata = [], output_parser = None, kwargs = 0, template = ''big {x}''\<rparr>),
      ((\<lambda>n. 2 < n), PromptTemplate \<lparr>metadata = [], output_parser = None, kwargs = 0, template = ''medium {x}''\<rparr>),
      ((\<lambda>n. 1 < n), PromptTemplate \<lparr>metadata = [], output_parser = None, kwargs = 0, template = ''small {x}''\<rparr>)]
       :: ((nat \<Rightarrow> bool) \<times> nat base_prompt_template) list"
  have first: "(1::nat) < length ?cs \<and> fst (?cs ! 1) (4::nat) \<and> (\<forall>j<1. \<not> fst (?cs ! j) (4::nat))"
    by simp
  have none: "\<forall>cp\<in>set ?cs. \<not> fst cp (0::nat)"
    by simp
  have dflt: "format (example_collaborators :: nat collaborators) [Map.empty] ?d None [''x'' \<mapsto> ''1'']
      = Inr ''default 1''"
    by (simp add: eval_defs)
  from selector_first_match_wins[of ?d ?cs 1 4] first
  have a: "SelectorPromptTemplate_select ?d ?cs (Some 4) = snd (?cs ! 1)"
    by blast
  from selector_first_match_wins[of ?d ?cs _ 0 "example_collaborators :: nat collaborators"
      "[Map.empty]" "[''x'' \<mapsto> ''1'']"] none
  have b: "format (example_collaborators :: nat collaborators) [Map.empty]
      (SelectorPromptTemplate ?d ?cs) (Some 0) [''x'' \<mapsto> ''1'']
      = format (example_collaborators :: nat collaborators) [Map.empty] ?d None [''x'' \<mapsto> ''1'']"
    by blast
  from a b dflt show ?thesis by simp
qed

subsection \<open>Partial binding and the store\<close>

lemma PromptTemplate_partial_format_eq:
  "PromptTemplate_partial_format h self kw =
     (self\<lparr>kwargs := length h\<rparr>, h @ [h ! kwargs self ++ kw])"
  by (simp add: PromptTemplate_partial_format_def deepcopy_def alloc_def dict_update_def)

lemma ChatPromptTemplate_partial_format_eq:
  "ChatPromptTemplate_partial_format h self kw =
     (self\<lparr>kwargs := length h\<rparr>, h @ [h ! kwargs self ++ kw])"
  by (simp add: ChatPromptTemplate_partial_format_def deepcopy_def alloc_def dict_update_def)

lemma extends_refl: "extends h h"
  by (simp add: extends_def)

lemma extends_trans: "extends h h1 \<Longrightarrow> extends h1 h2 \<Longrightarrow> extends h h2"
  by (auto simp: extends_def)

lemma extends_append: "extends h (h @ xs)"
  by (simp add: extends_def nth_append)

lemma valid_refs_conds_mono_aux:
  "(\<And>p. p \<in> snd ` set conds \<Longrightarrow> valid_refs h p \<Longrightarrow> valid_refs h' p) \<Longrightarrow>
     list_all (\<lambda>cp. valid_refs h (snd cp)) conds \<Longrightarrow> list_all (\<lambda>cp. valid_refs h' (snd cp)) conds"
  by (induction conds) auto

lemma valid_refs_mono:
  "valid_refs h t \<Longrightarrow> extends h h' \<Longrightarrow> valid_refs h' t"
proof (induction t)
  case (SelectorPromptTemplate dflt conds)
  have "list_all (\<lambda>cp. valid_refs h' (snd cp)) conds"
  proof (rule valid_refs_conds_mono_aux)
    show "list_all (\<lambda>cp. valid_refs h (snd cp)) conds"
      using SelectorPromptTemplate.prems by simp
  next
    fix p assume p: "p \<in> snd ` set conds" and v: "valid_refs h p"
    then obtain cp where "cp \<in> set conds" "p \<in> Basic_BNFs.snds cp"
      by (auto simp: snds.simps)
    then show "valid_refs h' p"
      using SelectorPromptTemplate.IH(2) v SelectorPromptTemplate.prems(2) by blast
  qed
  then show ?case using SelectorPromptTemplate by simp
qed (auto simp: extends_def)

lemma valid_refs_select_loop:
  "valid_refs h dflt \<Longrightarrow> list_all (\<lambda>cp. valid_refs h (snd cp)) conds \<Longrightarrow>
     valid_refs h (select_loop conds l dflt)"
  by (induction conds l dflt rule: select_loop.induct) auto

lemma valid_refs_select:
  "valid_refs h (SelectorPromptTemplate dflt conds) \<Longrightarrow>
     valid_refs h (SelectorPromptTemplate_select dflt conds llm)"
  by (cases llm) (auto simp: SelectorPromptTemplate_select_def valid_refs_select_loop)

lemma format_frame:
  "valid_refs h t \<Longrightarrow> extends h h' \<Longrightarrow> format ext h' t llm kw = format ext h t llm kw"
proof (induction ext h t llm kw rule: format.induct)
  case (1 ext h t llm kw)
  then show ?case by (simp add: PromptTemplate_format_def extends_def)
next
  case (2 ext h t llm kw)
  then show ?case
    by (simp add: ChatPromptTemplate_format_def ChatPromptTemplate_format_messages_def extends_def)
next
  case (3 ext h dflt conds llm kw)
  then show ?case using valid_refs_select[OF "3.prems"(1)] by simp
next
  case (4 ext h t llm kw)
  then show ?case by simp
qed

lemma format_messages_frame:
  "valid_refs h t \<Longrightarrow> extends h h' \<Longrightarrow>
     format_messages ext h' t llm kw = format_messages ext h t llm kw"
proof (induction ext h t llm kw rule: format_messages.induct)
  case (1 ext h t llm kw)
  then show ?case
    by (simp add: PromptTemplate_format_messages_def PromptTemplate_format_def extends_def)
next
  case (2 ext h t llm kw)
  then show ?case
    by (simp add: ChatPromptTemplate_format_messages_def extends_def)
next
  case (3 ext h dflt conds llm kw)
  then show ?case using valid_refs_select[OF "3.prems"(1)] by simp
next
  case (4 ext h t llm kw)
  then show ?case by simp
qed

lemma binds_frame:
  "binds ext h t kw h1 t' \<Longrightarrow> valid_refs h1 t' \<Longrightarrow> extends h1 h2 \<Longrightarrow> binds ext h t kw h2 t'"
  by (simp add: binds_def format_frame format_messages_frame)

lemma binds_frame_left:
  "binds ext h1 t kw h2 t' \<Longrightarrow> valid_refs h t \<Longrightarrow> extends h h1 \<Longrightarrow> binds ext h t kw h2 t'"
  by (simp add: binds_def format_frame format_messages_frame)

lemma select_loop_rel:
  "map fst conds' = map fst conds \<Longrightarrow> R dflt' dflt \<Longrightarrow>
     (\<forall>i<length conds. R (snd (conds' ! i)) (snd (conds ! i))) \<Longrightarrow>
     R (select_loop conds' l dflt') (select_loop conds l dflt)"
proof (induction conds arbitrary: conds')
  case Nil
  then show ?case by simp
next
  case (Cons cp conds)
  then obtain cp' rest' where c': "conds' = cp' # rest'" by (cases conds') auto
  obtain c p where cp: "cp = (c, p)" by (cases cp)
  obtain c' p' where cp': "cp' = (c', p')" by (cases cp')
  have fst: "c' = c" "map fst rest' = map fst conds"
    using Cons.prems(1) c' cp cp' by auto
  have r0: "R p' p" using Cons.prems(3)[rule_format, of 0] c' cp cp' by simp
  have rr: "\<forall>i<length conds. R (snd (rest' ! i)) (snd (conds ! i))"
    using Cons.prems(3) c' by fastforce
  show ?case
    using Cons.IH[OF fst(2) Cons.prems(2) rr] r0 by (simp add: c' cp cp' fst(1))
qed

lemma binds_selector:
  assumes d: "binds ext h dflt kw h' dflt'"
    and f: "map fst conds' = map fst conds"
    and c: "\<forall>i<length conds. binds ext h (snd (conds ! i)) kw h' (snd (conds' ! i))"
  shows "binds ext h (SelectorPromptTemplate dflt conds) kw h'
           (SelectorPromptTemplate dflt' conds')"
proof -
  have sel: "binds ext h (SelectorPromptTemplate_select dflt conds llm) kw h'
               (SelectorPromptTemplate_select dflt' conds' llm)" for llm
  proof (cases llm)
    case None
    then show ?thesis using d by (simp add: SelectorPromptTemplate_select_def)
  next
    case (Some l)
    have "(\<lambda>t' t. binds ext h t kw h' t') (select_loop conds' l dflt') (select_loop conds l dflt)"
      by (rule select_loop_rel[OF f]) (use d c in auto)
    then show ?thesis using Some by (simp add: SelectorPromptTemplate_select_def)
  qed
  show ?thesis
    unfolding binds_def
  proof (intro conjI allI)
    fix llm kw'
    show "format ext h' (SelectorPromptTemplate dflt' conds') llm kw' =
          format ext h (SelectorPromptTemplate dflt conds) llm (kw ++ kw')"
      using sel[of llm] by (simp add: binds_def)
    show "format_messages ext h' (SelectorPromptTemplate dflt' conds') llm kw' =
          format_messages ext h (SelectorPromptTemplate dflt conds) llm (kw ++ kw')"
      using sel[of llm] by (simp add: binds_def)
  qed
qed

lemma binds_PromptTemplate:
  "binds ext h (PromptTemplate t) kw (h @ [h ! kwargs t ++ kw])
     (PromptTemplate (t\<lparr>kwargs := length h\<rparr>))"
  by (simp add: binds_def PromptTemplate_format_def PromptTemplate_format_messages_def)

lemma binds_ChatPromptTemplate:
  "binds ext h (ChatPromptTemplate t) kw (h @ [h ! kwargs t ++ kw])
     (ChatPromptTemplate (t\<lparr>kwargs := length h\<rparr>))"
  by (simp add: binds_def ChatPromptTemplate_format_def ChatPromptTemplate_format_messages_def)

lemma langchain_partial_format_raises:
  "LangchainPromptTemplate_partial_format ext t kw = Inl TypeError"
  by (simp add: LangchainPromptTemplate_partial_format_def LangchainPromptTemplate_new_def
      instantiate_def abstractmethods_LangchainPromptTemplate Let_def)

lemma SelectorPromptTemplate_new_Some:
  "SelectorPromptTemplate_new dflt (Some conds) = Inr (SelectorPromptTemplate dflt conds)"
  by (simp add: SelectorPromptTemplate_new_def instantiate_def
      abstractmethods_SelectorPromptTemplate)

lemma partial_format_result:
  "valid_refs h t \<Longrightarrow> partial_format ext h t kw = Inr (t', h') \<Longrightarrow>
     extends h h' \<and> valid_refs h' t' \<and> \<not> has_bridged t' \<and> binds ext h t kw h' t'"
  and partial_format_conditionals_result:
  "list_all (\<lambda>cp. valid_refs h (snd cp)) conds \<Longrightarrow>
     partial_format_conditionals ext h conds kw = Inr (conds', h') \<Longrightarrow>
     extends h h' \<and> list_all (\<lambda>cp. valid_refs h' (snd cp)) conds' \<and>
     \<not> list_ex (\<lambda>cp. has_bridged (snd cp)) conds' \<and>
     map fst conds' = map fst conds \<and>
     (\<forall>i<length conds. binds ext h (snd (conds ! i)) kw h' (snd (conds' ! i)))"
proof (induction ext h t kw and ext h conds kw arbitrary: t' h' and conds' h'
    rule: partial_format_partial_format_conditionals.induct)
  case (1 ext h t kw)
  then show ?case
    by (auto simp: PromptTemplate_partial_format_eq extends_append binds_PromptTemplate)
next
  case (2 ext h t kw)
  then show ?case
    by (auto simp: ChatPromptTemplate_partial_format_eq extends_append binds_ChatPromptTemplate)
next
  case (3 ext h dflt conds kw)
  from "3.prems"(2) obtain d1 h1 cs2 where
    pd: "partial_format ext h dflt kw = Inr (d1, h1)" and
    pc: "partial_format_conditionals ext h1 conds kw = Inr (cs2, h')" and
    t': "t' = SelectorPromptTemplate d1 cs2"
    by (auto simp: SelectorPromptTemplate_new_Some split: sum.splits)
  have vd: "valid_refs h dflt" and vc: "list_all (\<lambda>cp. valid_refs h (snd cp)) conds"
    using "3.prems"(1) by simp_all
  from "3.IH"(1)[OF vd pd] have
    d: "extends h h1" "valid_refs h1 d1" "\<not> has_bridged d1" "binds ext h dflt kw h1 d1"
    by simp_all
  have vc1: "list_all (\<lambda>cp. valid_refs h1 (snd cp)) conds"
    using vc valid_refs_mono[OF _ d(1)] by (auto simp: list_all_iff)
  from "3.IH"(2)[OF pd refl vc1 pc] have
    c: "extends h1 h'" "list_all (\<lambda>cp. valid_refs h' (snd cp)) cs2"
       "\<not> list_ex (\<lambda>cp. has_bridged (snd cp)) cs2" "map fst cs2 = map fst conds"
       "\<forall>i<length conds. binds ext h1 (snd (conds ! i)) kw h' (snd (cs2 ! i))"
    by simp_all
  have bd: "binds ext h dflt kw h' d1"
    by (rule binds_frame[OF d(4) d(2) c(1)])
  have bc: "\<forall>i<length conds. binds ext h (snd (conds ! i)) kw h' (snd (cs2 ! i))"
  proof (intro allI impI)
    fix i assume i: "i < length conds"
    then have "valid_refs h (snd (conds ! i))"
      using vc by (simp add: list_all_length)
    then show "binds ext h (snd (conds ! i)) kw h' (snd (cs2 ! i))"
      using binds_frame_left c(5) i d(1) by blast
  qed
  show ?case
    using extends_trans[OF d(1) c(1)] valid_refs_mono[OF d(2) c(1)] c(2) c(3) d(3)
      binds_selector[OF bd c(4) bc]
    by (simp add: t')
next
  case (4 ext h t kw)
  then show ?case by (simp add: langchain_partial_format_raises)
next
  case (5 ext h kw)
  then show ?case by (simp add: extends_refl)
next
  case (6 ext h condition prompt rest kw)
  from "6.prems"(2) obtain p1 h1 rest2 where
    pp: "partial_format ext h prompt kw = Inr (p1, h1)" and
    pr: "partial_format_conditionals ext h1 rest kw = Inr (rest2, h')" and
    c': "conds' = (condition, p1) # rest2"
    by (auto split: sum.splits)
  have vp: "valid_refs h prompt" and vr: "list_all (\<lambda>cp. valid_refs h (snd cp)) rest"
    using "6.prems"(1) by simp_all
  from "6.IH"(1)[OF vp pp] have
    p: "extends h h1" "valid_refs h1 p1" "\<not> has_bridged p1" "binds ext h prompt kw h1 p1"
    by simp_all
  have vr1: "list_all (\<lambda>cp. valid_refs h1 (snd cp)) rest"
    using vr valid_refs_mono[OF _ p(1)] by (auto simp: list_all_iff)
  from "6.IH"(2)[OF pp refl vr1 pr] have
    r: "extends h1 h'" "list_all (\<lambda>cp. valid_refs h' (snd cp)) rest2"
       "\<not> list_ex (\<lambda>cp. has_bridged (snd cp)) rest2" "map fst rest2 = map fst rest"
       "\<forall>i<length rest. binds ext h1 (snd (rest ! i)) kw h' (snd (rest2 ! i))"
    by simp_all
  have bp: "binds ext h prompt kw h' p1"
    by (rule binds_frame[OF p(4) p(2) r(1)])
  have br: "\<forall>i<length rest. binds ext h (snd (rest ! i)) kw h' (snd (rest2 ! i))"
  proof (intro allI impI)
    fix i assume i: "i < length rest"
    then have "valid_refs h (snd (rest ! i))"
      using vr by (simp add: list_all_length)
    then show "binds ext h (snd (rest ! i)) kw h' (snd (rest2 ! i))"
      using binds_frame_left r(5) i p(1) by blast
  qed
  have ball: "\<forall>i<length ((condition, prompt) # rest).
      binds ext h (snd (((condition, prompt) # rest) ! i)) kw h' (snd (conds' ! i))"
  proof (intro allI impI)
    fix i assume "i < length ((condition, prompt) # rest)"
    then show "binds ext h (snd (((condition, prompt) # rest) ! i)) kw h' (snd (conds' ! i))"
      using bp br by (cases i) (auto simp: c')
  qed
  show ?case
    using extends_trans[OF p(1) r(1)] valid_refs_mono[OF p(2) r(1)] r(2) r(3) r(4) p(3) ball
    by (simp add: c')
qed

lemma partial_format_raises_iff_bridged:
  "partial_format ext h t kw =
     (if has_bridged t then Inl TypeError else partial_format ext h t kw) \<and>
   (\<not> has_bridged t \<longrightarrow> (\<exists>r. partial_format ext h t kw = Inr r))"
  and partial_format_conditionals_raises_iff_bridged:
  "partial_format_conditionals ext h conds kw =
     (if list_ex (\<lambda>cp. has_bridged (snd cp)) conds then Inl TypeError
      else partial_format_conditionals ext h conds kw) \<and>
   (\<not> list_ex (\<lambda>cp. has_bridged (snd cp)) conds \<longrightarrow>
      (\<exists>r. partial_format_conditionals ext h conds kw = Inr r))"
proof (induction ext h t kw and ext h conds kw
    rule: partial_format_partial_format_conditionals.induct)
  case (1 ext h t kw)
  then show ?case by (simp add: PromptTemplate_partial_format_eq)
next
  case (2 ext h t kw)
  then show ?case by (simp add: ChatPromptTemplate_partial_format_eq)
next
  case (3 ext h dflt conds kw)
  show ?case
  proof (cases "partial_format ext h dflt kw")
    case (Inl e)
    with "3.IH"(1) show ?thesis by (auto split: if_splits)
  next
    case (Inr r)
    obtain d1 h1 where r: "r = (d1, h1)" by (cases r)
    have nb: "\<not> has_bridged dflt" using "3.IH"(1) Inr by (auto split: if_splits)
    show ?thesis
      using "3.IH"(2)[OF Inr[unfolded r] refl] Inr r nb
      by (auto simp: SelectorPromptTemplate_new_Some split: sum.splits if_splits)
  qed
next
  case (4 ext h t kw)
  then show ?case by (simp add: langchain_partial_format_raises)
next
  case (5 ext h kw)
  then show ?case by simp
next
  case (6 ext h condition prompt rest kw)
  show ?case
  proof (cases "partial_format ext h prompt kw")
    case (Inl e)
    with "6.IH"(1) show ?thesis by (auto split: if_splits)
  next
    case (Inr r)
    obtain p1 h1 where r: "r = (p1, h1)" by (cases r)
    have nb: "\<not> has_bridged prompt" using "6.IH"(1) Inr by (auto split: if_splits)
    show ?thesis
      using "6.IH"(2)[OF Inr[unfolded r] refl] Inr r nb
      by (auto split: sum.splits if_splits)
  qed
qed

lemma partial_format_bridged:
  "has_bridged t \<Longrightarrow> partial_format ext h t kw = Inl TypeError"
  using partial_format_raises_iff_bridged[of ext h t kw] by (simp split: if_splits)

lemma partial_format_not_bridged:
  "\<not> has_bridged t \<Longrightarrow> \<exists>t' h'. partial_format ext h t kw = Inr (t', h')"
  using partial_format_raises_iff_bridged[of ext h t kw] by auto

text \<open>
  C5: \<^verbatim>\<open>partial_format\<close> of a string template and of a chat template leaves every
  dictionary of the store as it was, so the receiver's stored bindings and what it
  renders are unchanged; the returned copy has the receiver's attributes except that its
  bindings are a new dictionary, the receiver's bindings overridden by the new ones;
  updating either dictionary afterwards does not reach the other.
\<close>

theorem partial_format_leaves_receiver:
  assumes "kwargs self < length h" and "kwargs chat < length h"
  shows "(case PromptTemplate_partial_format h self kw of (prompt, h') \<Rightarrow>
            (\<forall>a<length h. h' ! a = h ! a)
          \<and> h' ! kwargs self = h ! kwargs self
          \<and> PromptTemplate_format h' self llm kw0 = PromptTemplate_format h self llm kw0
          \<and> PromptTemplate_format_messages ext h' self llm kw0 =
              PromptTemplate_format_messages ext h self llm kw0
          \<and> kwargs prompt = length h \<and> kwargs prompt \<noteq> kwargs self
          \<and> length h' = Suc (length h)
          \<and> h' ! kwargs prompt = h ! kwargs self ++ kw
          \<and> prompt = self\<lparr>kwargs := kwargs prompt\<rparr>
          \<and> PromptTemplate_template_vars prompt = PromptTemplate_template_vars self
          \<and> dict_update h' (kwargs prompt) kw1 ! kwargs self = h ! kwargs self
          \<and> dict_update h' (kwargs self) kw1 ! kwargs prompt = h' ! kwargs prompt)
       \<and> (case ChatPromptTemplate_partial_format h chat kw of (prompt, h') \<Rightarrow>
            (\<forall>a<length h. h' ! a = h ! a)
          \<and> h' ! kwargs chat = h ! kwargs chat
          \<and> ChatPromptTemplate_format_messages h' chat llm kw0 =
              ChatPromptTemplate_format_messages h chat llm kw0
          \<and> ChatPromptTemplate_format ext h' chat llm kw0 =
              ChatPromptTemplate_format ext h chat llm kw0
          \<and> kwargs prompt = length h \<and> kwargs prompt \<noteq> kwargs chat
          \<and> length h' = Suc (length h)
          \<and> h' ! kwargs prompt = h ! kwargs chat ++ kw
          \<and> prompt = chat\<lparr>kwargs := kwargs prompt\<rparr>
          \<and> ChatPromptTemplate_template_vars prompt = ChatPromptTemplate_template_vars chat
          \<and> dict_update h' (kwargs prompt) kw1 ! kwargs chat = h ! kwargs chat
          \<and> dict_update h' (kwargs chat) kw1 ! kwargs prompt = h' ! kwargs prompt)"
  using assms
  by (simp add: PromptTemplate_partial_format_eq ChatPromptTemplate_partial_format_eq
      nth_append PromptTemplate_format_def PromptTemplate_format_messages_def
      ChatPromptTemplate_format_messages_def ChatPromptTemplate_format_def
      PromptTemplate_template_vars_def ChatPromptTemplate_template_vars_def dict_update_def)

theorem partial_format_leaves_receiver_witness:
  "(case PromptTemplate_partial_format [[''a'' \<mapsto> ''1'']]
       \<lparr>metadata = [], output_parser = None, kwargs = 0, template = ''{a}-{b}''\<rparr>
       [''b'' \<mapsto> ''2''] of
     (prompt, h') \<Rightarrow>
       kwargs prompt = 1
       \<and> PromptTemplate_format h' prompt (None :: unit option) Map.empty = Inr ''1-2''
       \<and> PromptTemplate_format h'
           \<lparr>metadata = [], output_parser = None, kwargs = 0, template = ''{a}-{b}''\<rparr>
           (None :: unit option) Map.empty = Inl (KeyError ''b''))"
proof -
  let ?self = "\<lparr>metadata = [], output_parser = None, kwargs = 0, template = ''{a}-{b}''\<rparr>"
  let ?chat = "\<lparr>metadata = [], output_parser = None, kwargs = 0, message_templates = []\<rparr>"
  let ?h = "[[''a'' \<mapsto> ''1'']]"
  let ?kw = "[''b'' \<mapsto> ''2'']"
  obtain prompt h' where pf: "PromptTemplate_partial_format ?h ?self ?kw = (prompt, h')"
    by (cases "PromptTemplate_partial_format ?h ?self ?kw")
  have v: "kwargs ?self < length ?h" "kwargs ?chat < length ?h"
    by simp_all
  note t = partial_format_leaves_receiver[OF v, where kw = ?kw and llm = "None :: unit option"
      and ?kw0.0 = Map.empty and ?kw1.0 = Map.empty
      and ext = "example_collaborators :: unit collaborators", unfolded pf prod.case]
  have frame: "PromptTemplate_format h' ?self (None :: unit option) Map.empty =
        PromptTemplate_format ?h ?self (None :: unit option) Map.empty"
    using t by blast
  have fresh: "kwargs prompt = length ?h"
    using t by blast
  have union: "h' ! kwargs prompt = ?h ! kwargs ?self ++ ?kw"
    using t by blast
  have copy: "prompt = ?self\<lparr>kwargs := kwargs prompt\<rparr>"
    using t by blast
  have orig: "PromptTemplate_format ?h ?self (None :: unit option) Map.empty = Inl (KeyError ''b'')"
    by (simp add: eval_defs)
  have "template prompt = ''{a}-{b}''"
    by (subst copy) simp
  moreover have "h' ! kwargs prompt = [''a'' \<mapsto> ''1'', ''b'' \<mapsto> ''2'']"
    unfolding union by simp
  ultimately have new: "PromptTemplate_format h' prompt (None :: unit option) Map.empty = Inr ''1-2''"
    by (simp add: eval_defs)
  show ?thesis
    unfolding pf using fresh new frame orig by simp
qed




lemma partial_format_conditionals_each:
  "partial_format_conditionals ext h conds kw = Inr (conds', h') \<Longrightarrow>
   list_all (\<lambda>cp. valid_refs h (snd cp)) conds \<Longrightarrow>
     \<forall>i<length conds. \<exists>hi hi'. extends h hi \<and>
        partial_format ext hi (snd (conds ! i)) kw = Inr (snd (conds' ! i), hi')"
proof (induction conds arbitrary: h conds')
  case Nil
  then show ?case by simp
next
  case (Cons cp rest)
  obtain condition prompt where cp: "cp = (condition, prompt)" by (cases cp)
  from Cons.prems(1) obtain p1 h1 rest2 where
    pp: "partial_format ext h prompt kw = Inr (p1, h1)" and
    pr: "partial_format_conditionals ext h1 rest kw = Inr (rest2, h')" and
    c': "conds' = (condition, p1) # rest2"
    by (auto simp: cp split: sum.splits)
  have vp: "valid_refs h prompt" and vr: "list_all (\<lambda>cp. valid_refs h (snd cp)) rest"
    using Cons.prems(2) cp by simp_all
  have e1: "extends h h1"
    using partial_format_result[OF vp pp] by simp
  have vr1: "list_all (\<lambda>cp. valid_refs h1 (snd cp)) rest"
    using vr valid_refs_mono[OF _ e1] by (auto simp: list_all_iff)
  note ih = Cons.IH[OF pr vr1]
  show ?case
  proof (intro allI impI)
    fix i assume i: "i < length (cp # rest)"
    show "\<exists>hi hi'. extends h hi \<and>
        partial_format ext hi (snd ((cp # rest) ! i)) kw = Inr (snd (conds' ! i), hi')"
    proof (cases i)
      case 0
      then show ?thesis using pp extends_refl[of h] by (auto simp: cp c')
    next
      case (Suc k)
      with i have "k < length rest" by simp
      with ih obtain hi hi' where
        "extends h1 hi" "partial_format ext hi (snd (rest ! k)) kw = Inr (snd (rest2 ! k), hi')"
        by blast
      then show ?thesis
        using extends_trans[OF e1] Suc by (auto simp: c')
    qed
  qed
qed

text \<open>
  C9: when \<^verbatim>\<open>partial_format\<close> of a selector returns, it returns a new selector with
  as many conditional pairs, each with the predicate of the pair at its place; its default
  template is what \<^verbatim>\<open>partial_format\<close> of the receiver's default template returned,
  and each conditional template is what \<^verbatim>\<open>partial_format\<close> of the receiver's
  template at that place returned, with the same bindings, in a store that still holds
  every dictionary of the first. Each new template renders as the receiver's with the
  bindings added, and so does the new selector. Every dictionary of the store is as it
  was, and the receiver renders as before. \<^verbatim>\<open>partial_format\<close> of the selector
  returns whenever \<^verbatim>\<open>partial_format\<close> of each template it owns returns.
\<close>

theorem selector_partial_format_binds_every_template:
  assumes v: "valid_refs h (SelectorPromptTemplate dflt conds)"
  shows
    "(\<forall>t' h'. partial_format ext h (SelectorPromptTemplate dflt conds) kw = Inr (t', h') \<longrightarrow>
        (\<exists>dflt' conds' h1.
            t' = SelectorPromptTemplate dflt' conds'
          \<and> partial_format ext h dflt kw = Inr (dflt', h1)
          \<and> (\<forall>llm kw'. format ext h' dflt' llm kw' = format ext h dflt llm (kw ++ kw'))
          \<and> (\<forall>llm kw'. format_messages ext h' dflt' llm kw' =
                format_messages ext h dflt llm (kw ++ kw'))
          \<and> length conds' = length conds
          \<and> (\<forall>i<length conds.
                 fst (conds' ! i) = fst (conds ! i)
               \<and> (\<exists>hi hi'. length h \<le> length hi \<and> (\<forall>a<length h. hi ! a = h ! a)
                     \<and> partial_format ext hi (snd (conds ! i)) kw = Inr (snd (conds' ! i), hi'))
               \<and> (\<forall>llm kw'. format ext h' (snd (conds' ! i)) llm kw' =
                     format ext h (snd (conds ! i)) llm (kw ++ kw'))
               \<and> (\<forall>llm kw'. format_messages ext h' (snd (conds' ! i)) llm kw' =
                     format_messages ext h (snd (conds ! i)) llm (kw ++ kw')))
          \<and> (\<forall>llm kw'. format ext h' t' llm kw' =
                format ext h (SelectorPromptTemplate dflt conds) llm (kw ++ kw'))
          \<and> length h \<le> length h' \<and> (\<forall>a<length h. h' ! a = h ! a)
          \<and> (\<forall>llm kw'. format ext h' (SelectorPromptTemplate dflt conds) llm kw' =
                format ext h (SelectorPromptTemplate dflt conds) llm kw')
          \<and> (\<forall>llm kw'. format_messages ext h' (SelectorPromptTemplate dflt conds) llm kw' =
                format_messages ext h (SelectorPromptTemplate dflt conds) llm kw')))
   \<and> ((\<forall>p\<in>set (dflt # map snd conds). \<forall>h0. \<exists>r. partial_format ext h0 p kw = Inr r) \<longrightarrow>
        (\<exists>t' h'. partial_format ext h (SelectorPromptTemplate dflt conds) kw = Inr (t', h')))"
proof (intro conjI allI impI)
  fix t' h'
  assume p: "partial_format ext h (SelectorPromptTemplate dflt conds) kw = Inr (t', h')"
  then obtain d1 h1 cs2 where
    pd: "partial_format ext h dflt kw = Inr (d1, h1)" and
    pc: "partial_format_conditionals ext h1 conds kw = Inr (cs2, h')" and
    t': "t' = SelectorPromptTemplate d1 cs2"
    by (auto simp: SelectorPromptTemplate_new_Some split: sum.splits)
  have vd: "valid_refs h dflt" and vc: "list_all (\<lambda>cp. valid_refs h (snd cp)) conds"
    using v by simp_all
  from partial_format_result[OF vd pd] have
    d: "extends h h1" "valid_refs h1 d1" "binds ext h dflt kw h1 d1" by simp_all
  have vc1: "list_all (\<lambda>cp. valid_refs h1 (snd cp)) conds"
    using vc valid_refs_mono[OF _ d(1)] by (auto simp: list_all_iff)
  from partial_format_conditionals_result[OF vc1 pc] have
    c: "extends h1 h'" "map fst cs2 = map fst conds"
       "\<forall>i<length conds. binds ext h1 (snd (conds ! i)) kw h' (snd (cs2 ! i))"
    by simp_all
  have len: "length cs2 = length conds"
    using c(2) by (metis length_map)
  have bd: "binds ext h dflt kw h' d1"
    by (rule binds_frame[OF d(3) d(2) c(1)])
  have e: "extends h h'"
    by (rule extends_trans[OF d(1) c(1)])
  have whole: "binds ext h (SelectorPromptTemplate dflt conds) kw h' t'"
    using partial_format_result[OF v p] by simp
  have each: "\<forall>i<length conds.
       fst (cs2 ! i) = fst (conds ! i)
     \<and> (\<exists>hi hi'. length h \<le> length hi \<and> (\<forall>a<length h. hi ! a = h ! a)
           \<and> partial_format ext hi (snd (conds ! i)) kw = Inr (snd (cs2 ! i), hi'))
     \<and> (\<forall>llm kw'. format ext h' (snd (cs2 ! i)) llm kw' =
           format ext h (snd (conds ! i)) llm (kw ++ kw'))
     \<and> (\<forall>llm kw'. format_messages ext h' (snd (cs2 ! i)) llm kw' =
           format_messages ext h (snd (conds ! i)) llm (kw ++ kw'))"
  proof (intro allI impI)
    fix i assume i: "i < length conds"
    have f: "fst (cs2 ! i) = fst (conds ! i)"
      using c(2) i len by (metis nth_map)
    from partial_format_conditionals_each[OF pc vc1] i obtain hi hi' where
      hi: "extends h1 hi" "partial_format ext hi (snd (conds ! i)) kw = Inr (snd (cs2 ! i), hi')"
      by blast
    have ehi: "extends h hi" by (rule extends_trans[OF d(1) hi(1)])
    have "valid_refs h (snd (conds ! i))"
      using vc i by (simp add: list_all_length)
    then have b: "binds ext h (snd (conds ! i)) kw h' (snd (cs2 ! i))"
      using binds_frame_left c(3) i d(1) by blast
    show "fst (cs2 ! i) = fst (conds ! i)
     \<and> (\<exists>hi hi'. length h \<le> length hi \<and> (\<forall>a<length h. hi ! a = h ! a)
           \<and> partial_format ext hi (snd (conds ! i)) kw = Inr (snd (cs2 ! i), hi'))
     \<and> (\<forall>llm kw'. format ext h' (snd (cs2 ! i)) llm kw' =
           format ext h (snd (conds ! i)) llm (kw ++ kw'))
     \<and> (\<forall>llm kw'. format_messages ext h' (snd (cs2 ! i)) llm kw' =
           format_messages ext h (snd (conds ! i)) llm (kw ++ kw'))"
      using f hi(2) ehi b unfolding binds_def extends_def by blast
  qed
  show "\<exists>dflt' conds' h1.
            t' = SelectorPromptTemplate dflt' conds'
          \<and> partial_format ext h dflt kw = Inr (dflt', h1)
          \<and> (\<forall>llm kw'. format ext h' dflt' llm kw' = format ext h dflt llm (kw ++ kw'))
          \<and> (\<forall>llm kw'. format_messages ext h' dflt' llm kw' =
                format_messages ext h dflt llm (kw ++ kw'))
          \<and> length conds' = length conds
          \<and> (\<forall>i<length conds.
                 fst (conds' ! i) = fst (conds ! i)
               \<and> (\<exists>hi hi'. length h \<le> length hi \<and> (\<forall>a<length h. hi ! a = h ! a)
                     \<and> partial_format ext hi (snd (conds ! i)) kw = Inr (snd (conds' ! i), hi'))
               \<and> (\<forall>llm kw'. format ext h' (snd (conds' ! i)) llm kw' =
                     format ext h (snd (conds ! i)) llm (kw ++ kw'))
               \<and> (\<forall>llm kw'. format_messages ext h' (snd (conds' ! i)) llm kw' =
                     format_messages ext h (snd (conds ! i)) llm (kw ++ kw')))
          \<and> (\<forall>llm kw'. format ext h' t' llm kw' =
                format ext h (SelectorPromptTemplate dflt conds) llm (kw ++ kw'))
          \<and> length h \<le> length h' \<and> (\<forall>a<length h. h' ! a = h ! a)
          \<and> (\<forall>llm kw'. format ext h' (SelectorPromptTemplate dflt conds) llm kw' =
                format ext h (SelectorPromptTemplate dflt conds) llm kw')
          \<and> (\<forall>llm kw'. format_messages ext h' (SelectorPromptTemplate dflt conds) llm kw' =
                format_messages ext h (SelectorPromptTemplate dflt conds) llm kw')"
  proof (intro exI[of _ d1] exI[of _ cs2] exI[of _ h1] conjI)
    show "t' = SelectorPromptTemplate d1 cs2" by (rule t')
    show "partial_format ext h dflt kw = Inr (d1, h1)" by (rule pd)
    show "\<forall>llm kw'. format ext h' d1 llm kw' = format ext h dflt llm (kw ++ kw')"
      using bd by (simp add: binds_def)
    show "\<forall>llm kw'. format_messages ext h' d1 llm kw' = format_messages ext h dflt llm (kw ++ kw')"
      using bd by (simp add: binds_def)
    show "length cs2 = length conds" by (rule len)
    show "\<forall>i<length conds.
       fst (cs2 ! i) = fst (conds ! i)
     \<and> (\<exists>hi hi'. length h \<le> length hi \<and> (\<forall>a<length h. hi ! a = h ! a)
           \<and> partial_format ext hi (snd (conds ! i)) kw = Inr (snd (cs2 ! i), hi'))
     \<and> (\<forall>llm kw'. format ext h' (snd (cs2 ! i)) llm kw' =
           format ext h (snd (conds ! i)) llm (kw ++ kw'))
     \<and> (\<forall>llm kw'. format_messages ext h' (snd (cs2 ! i)) llm kw' =
           format_messages ext h (snd (conds ! i)) llm (kw ++ kw'))"
      by (rule each)
    show "\<forall>llm kw'. format ext h' t' llm kw' =
                format ext h (SelectorPromptTemplate dflt conds) llm (kw ++ kw')"
      using whole by (simp add: binds_def)
    show "length h \<le> length h'" using e by (simp add: extends_def)
    show "\<forall>a<length h. h' ! a = h ! a" using e by (simp add: extends_def)
    show "\<forall>llm kw'. format ext h' (SelectorPromptTemplate dflt conds) llm kw' =
                format ext h (SelectorPromptTemplate dflt conds) llm kw'"
      using format_frame[OF v e] by blast
    show "\<forall>llm kw'. format_messages ext h' (SelectorPromptTemplate dflt conds) llm kw' =
                format_messages ext h (SelectorPromptTemplate dflt conds) llm kw'"
      using format_messages_frame[OF v e] by blast
  qed
next
  assume a: "\<forall>p\<in>set (dflt # map snd conds). \<forall>h0. \<exists>r. partial_format ext h0 p kw = Inr r"
  have nb: "\<not> has_bridged p" if "p \<in> set (dflt # map snd conds)" for p
  proof
    assume "has_bridged p"
    then have "partial_format ext h p kw = Inl TypeError"
      by (rule partial_format_bridged)
    moreover from a that obtain r where "partial_format ext h p kw = Inr r"
      by blast
    ultimately show False by simp
  qed
  have "\<not> has_bridged (SelectorPromptTemplate dflt conds)"
    using nb by (auto simp: list_ex_iff)
  then show "\<exists>t' h'. partial_format ext h (SelectorPromptTemplate dflt conds) kw = Inr (t', h')"
    by (rule partial_format_not_bridged)
qed

theorem selector_partial_format_binds_every_template_witness:
  "(case partial_format (example_collaborators :: nat collaborators) [Map.empty]
       (SelectorPromptTemplate
         (PromptTemplate
           \<lparr>metadata = [], output_parser = None, kwargs = 0, template = ''default {a}''\<rparr>)
         [((\<lambda>n. 2 < n),
           PromptTemplate
             \<lparr>metadata = [], output_parser = None, kwargs = 0, template = ''big {a}''\<rparr>)])
       [''a'' \<mapsto> ''1''] of
      Inl e \<Rightarrow> False
    | Inr (t', h') \<Rightarrow>
        format example_collaborators h' t' (Some 5) Map.empty = Inr ''big 1''
      \<and> format example_collaborators h' t' (Some 0) Map.empty = Inr ''default 1''
      \<and> format (example_collaborators :: nat collaborators) h'
          (SelectorPromptTemplate
            (PromptTemplate
              \<lparr>metadata = [], output_parser = None, kwargs = 0, template = ''default {a}''\<rparr>)
            [((\<lambda>n. 2 < n),
              PromptTemplate
                \<lparr>metadata = [], output_parser = None, kwargs = 0, template = ''big {a}''\<rparr>)])
          (Some 5) Map.empty = Inl (KeyError ''a''))"
proof -
  let ?ex = "example_collaborators :: nat collaborators"
  let ?h = "[Map.empty] :: store"
  let ?kw = "[''a'' \<mapsto> ''1'']"
  let ?sel = "SelectorPromptTemplate
         (PromptTemplate
           \<lparr>metadata = [], output_parser = None, kwargs = 0, template = ''default {a}''\<rparr>)
         [((\<lambda>n. 2 < n),
           PromptTemplate
             \<lparr>metadata = [], output_parser = None, kwargs = 0, template = ''big {a}''\<rparr>)]
       :: nat base_prompt_template"
  have v: "valid_refs ?h ?sel" by simp
  have each: "\<forall>p\<in>set (PromptTemplate
           \<lparr>metadata = [], output_parser = None, kwargs = 0, template = ''default {a}''\<rparr>
         # map snd [((\<lambda>n. 2 < n),
           PromptTemplate
             \<lparr>metadata = [], output_parser = None, kwargs = 0, template = ''big {a}''\<rparr>)]).
        \<forall>h0. \<exists>r. partial_format ?ex h0 p ?kw = Inr r"
    by (simp add: PromptTemplate_partial_format_eq)
  note t = selector_partial_format_binds_every_template[OF v, where ext = ?ex and kw = ?kw]
  have "\<exists>t' h'. partial_format ?ex ?h ?sel ?kw = Inr (t', h')"
    using t[THEN conjunct2] each by (rule mp)
  then obtain t' h' where p: "partial_format ?ex ?h ?sel ?kw = Inr (t', h')"
    by (elim exE)
  note r = t[THEN conjunct1, rule_format, OF p]
  have w: "\<forall>llm kw'. format ?ex h' t' llm kw' = format ?ex ?h ?sel llm (?kw ++ kw')"
    using r by (elim exE conjE)
  have f: "\<forall>llm kw'. format ?ex h' ?sel llm kw' = format ?ex ?h ?sel llm kw'"
    using r by (elim exE conjE)
  have e1: "format ?ex ?h ?sel (Some 5) (?kw ++ Map.empty) = Inr ''big 1''"
    by (simp add: SelectorPromptTemplate_select_def eval_defs)
  have e2: "format ?ex ?h ?sel (Some 0) (?kw ++ Map.empty) = Inr ''default 1''"
    by (simp add: SelectorPromptTemplate_select_def eval_defs)
  have e3: "format ?ex ?h ?sel (Some 5) Map.empty = Inl (KeyError ''a'')"
    by (simp add: SelectorPromptTemplate_select_def eval_defs)
  have "format ?ex h' t' (Some 5) Map.empty = Inr ''big 1''"
    using w[rule_format, of "Some 5" Map.empty] e1 by (simp only:)
  moreover have "format ?ex h' t' (Some 0) Map.empty = Inr ''default 1''"
    using w[rule_format, of "Some 0" Map.empty] e2 by (simp only:)
  moreover have "format ?ex h' ?sel (Some 5) Map.empty = Inl (KeyError ''a'')"
    using f[rule_format, of "Some 5" Map.empty] e3 by (simp only:)
  ultimately show ?thesis
    unfolding p by simp
qed

end
